theory Spec2Isabelle
  imports Complex_Main
begin

section \<open>Exceptions and observable effects\<close>

text \<open>
  The bot is Python. An exception is a value of \<open>py_error\<close>, and a call that may
  raise returns \<open>py_error + 'a\<close> with \<open>Inl\<close> for the exception raised. Only
  \<open>TransactionNotFound\<close> is ever told apart from the others by the source (the
  receipt poll catches it alone); the remaining names stand for what the client
  library and the interpreter raise.
\<close>

datatype py_error =
    TypeError
  | ValueError
  | KeyError
  | TransactionNotFound
  | ConnectionError
  | ContractLogicError
  | MismatchedABI
  | InvalidToken
  | UnicodeEncodeError
  | UnicodeDecodeError

text \<open>
  What an attempt does besides computing, in the order it happens: the calls of
  \<open>create_mint_transaction\<close>, \<open>sign_transaction\<close>, \<open>send_raw_transaction\<close> and
  \<open>get_transaction_receipt\<close>, and the calls of \<open>asyncio.sleep\<close> with their
  seconds. Console output is left out.
\<close>

datatype event =
    CreateTx
  | SignTx
  | SendRaw
  | GetReceipt
  | Sleep rat

section \<open>Confirmation wait (\<open>wait_for_transaction\<close>)\<close>

record receipt =
  status :: int

text \<open>
  The three places where \<open>wait_for_transaction\<close> returns: a receipt whose status is
  1 (\<open>return True\<close>), a receipt with any other status (\<open>return False\<close>), and the
  end of the loop with no receipt (\<open>return False\<close>). \<open>wait_success\<close> is the Boolean the
  source returns there.
\<close>

datatype wait_result = ReceiptSuccess | ReceiptFailure | NoReceipt

fun wait_success :: "wait_result \<Rightarrow> bool" where
  "wait_success ReceiptSuccess = True"
| "wait_success ReceiptFailure = False"
| "wait_success NoReceipt = False"

definition max_attempts :: nat where
  "max_attempts = 30"

text \<open>
  The answer of the chain to the poll number \<open>attempts\<close> of one transaction is
  \<open>rc attempts\<close>: a receipt, \<open>None\<close>, or an exception. The loop counts a poll and
  sleeps two seconds when the receipt is \<open>None\<close> or the call raised
  \<open>TransactionNotFound\<close>; any other exception leaves the function.
\<close>

function wait_loop ::
  "(nat \<Rightarrow> py_error + receipt option) \<Rightarrow> nat \<Rightarrow> event list \<times> (py_error + wait_result)" where
  "wait_loop rc attempts =
     (if attempts < max_attempts then
        (case rc attempts of
           Inr (Some receipt) \<Rightarrow>
             ([GetReceipt], Inr (if status receipt = 1 then ReceiptSuccess else ReceiptFailure))
         | Inr None \<Rightarrow>
             (case wait_loop rc (attempts + 1) of
                (evs, r) \<Rightarrow> (GetReceipt # Sleep 2 # evs, r))
         | Inl e \<Rightarrow>
             (if e = TransactionNotFound then
                (case wait_loop rc (attempts + 1) of
                   (evs, r) \<Rightarrow> (GetReceipt # Sleep 2 # evs, r))
              else ([GetReceipt], Inl e)))
      else ([], Inr NoReceipt))"
  by pat_completeness auto
termination
  by (relation "measure (\<lambda>(rc, attempts). max_attempts - attempts)") auto

declare wait_loop.simps [simp del]

definition wait_for_transaction ::
  "(nat \<Rightarrow> py_error + receipt option) \<Rightarrow> event list \<times> (py_error + wait_result)" where
  "wait_for_transaction rc = wait_loop rc 0"

section \<open>Readiness (\<open>check_mint_status\<close>)\<close>

text \<open>
  The two queries are calls of the contract; each returns a Boolean or raises. The
  inner handlers are bare \<open>except:\<close> clauses, so nothing reaches the outer handler.
\<close>

definition check_mint_status :: "(py_error + bool) \<Rightarrow> (py_error + bool) \<Rightarrow> bool" where
  "check_mint_status isPublicMintActive mintActive =
     (case isPublicMintActive of
        Inr is_public_mint_active \<Rightarrow> is_public_mint_active
      | Inl _ \<Rightarrow>
          (case mintActive of
             Inr is_mint_active \<Rightarrow> is_mint_active
           | Inl _ \<Rightarrow> True))"

section \<open>Strings and bytes\<close>

text \<open>
  A Python \<open>str\<close> that goes through a codec is a list of code points, and \<open>bytes\<close> a
  list of byte values. \<open>str.encode()\<close> and \<open>bytes.decode()\<close> are the strict UTF-8
  codec: a surrogate code point has no encoding, and the decoder refuses truncated
  sequences, stray continuation bytes, overlong forms, surrogates and everything
  above U+10FFFF. Names, addresses and time stamps, which the code only stores and
  compares, are plain \<open>string\<close>s.
\<close>

type_synonym str = "nat list"
type_synonym bytes = "nat list"

definition encode_char :: "nat \<Rightarrow> py_error + bytes" where
  "encode_char c =
     (if c < 0x80 then Inr [c]
      else if c < 0x800 then Inr [0xC0 + c div 0x40, 0x80 + c mod 0x40]
      else if c < 0x10000 then
        (if 0xD800 \<le> c \<and> c < 0xE000 then Inl UnicodeEncodeError
         else Inr [0xE0 + c div 0x1000, 0x80 + c div 0x40 mod 0x40, 0x80 + c mod 0x40])
      else if c < 0x110000 then
        Inr [0xF0 + c div 0x40000, 0x80 + c div 0x1000 mod 0x40,
             0x80 + c div 0x40 mod 0x40, 0x80 + c mod 0x40]
      else Inl UnicodeEncodeError)"

fun encode :: "str \<Rightarrow> py_error + bytes" where
  "encode [] = Inr []"
| "encode (c # cs) =
     (case encode_char c of
        Inl e \<Rightarrow> Inl e
      | Inr bs \<Rightarrow> (case encode cs of Inl e \<Rightarrow> Inl e | Inr rest \<Rightarrow> Inr (bs @ rest)))"

definition continuation :: "nat \<Rightarrow> bool" where
  "continuation b \<longleftrightarrow> 0x80 \<le> b \<and> b < 0xC0"

definition prepend :: "nat \<Rightarrow> py_error + str \<Rightarrow> py_error + str" where
  "prepend c r = (case r of Inl e \<Rightarrow> Inl e | Inr cs \<Rightarrow> Inr (c # cs))"

fun decode :: "bytes \<Rightarrow> py_error + str" where
  "decode [] = Inr []"
| "decode (b0 # bs) =
     (if b0 < 0x80 then prepend b0 (decode bs)
      else if 0xC2 \<le> b0 \<and> b0 < 0xE0 then
        (case bs of
           b1 # rest \<Rightarrow>
             (if continuation b1
              then prepend ((b0 - 0xC0) * 0x40 + (b1 - 0x80)) (decode rest)
              else Inl UnicodeDecodeError)
         | _ \<Rightarrow> Inl UnicodeDecodeError)
      else if 0xE0 \<le> b0 \<and> b0 < 0xF0 then
        (case bs of
           b1 # b2 # rest \<Rightarrow>
             (if continuation b1 \<and> continuation b2
                 \<and> (b0 = 0xE0 \<longrightarrow> 0xA0 \<le> b1) \<and> (b0 = 0xED \<longrightarrow> b1 < 0xA0)
              then prepend ((b0 - 0xE0) * 0x1000 + (b1 - 0x80) * 0x40 + (b2 - 0x80))
                     (decode rest)
              else Inl UnicodeDecodeError)
         | _ \<Rightarrow> Inl UnicodeDecodeError)
      else if 0xF0 \<le> b0 \<and> b0 < 0xF5 then
        (case bs of
           b1 # b2 # b3 # rest \<Rightarrow>
             (if continuation b1 \<and> continuation b2 \<and> continuation b3
                 \<and> (b0 = 0xF0 \<longrightarrow> 0x90 \<le> b1) \<and> (b0 = 0xF4 \<longrightarrow> b1 < 0x90)
              then prepend ((b0 - 0xF0) * 0x40000 + (b1 - 0x80) * 0x1000
                              + (b2 - 0x80) * 0x40 + (b3 - 0x80))
                     (decode rest)
              else Inl UnicodeDecodeError)
         | _ \<Rightarrow> Inl UnicodeDecodeError)
      else Inl UnicodeDecodeError)"

section \<open>Key store (\<open>WalletManager\<close>)\<close>

text \<open>
  \<open>Fernet\<close> comes from the \<open>cryptography\<close> package and is not part of the
  repository: the cipher object is a parameter. Encryption draws an initialisation
  vector and reads the clock; both are the first argument of \<open>encrypt\<close>.
\<close>

record fernet =
  encrypt :: "nat \<Rightarrow> bytes \<Rightarrow> bytes"
  decrypt :: "bytes \<Rightarrow> py_error + bytes"

record wallet_manager =
  cipher :: fernet

definition encrypt_private_key :: "wallet_manager \<Rightarrow> nat \<Rightarrow> str \<Rightarrow> py_error + str" where
  "encrypt_private_key self seed private_key =
     (case encode private_key of
        Inl e \<Rightarrow> Inl e
      | Inr plain \<Rightarrow> decode (encrypt (cipher self) seed plain))"

definition decrypt_private_key :: "wallet_manager \<Rightarrow> str \<Rightarrow> py_error + str" where
  "decrypt_private_key self encrypted_key =
     (case encode encrypted_key of
        Inl e \<Rightarrow> Inl e
      | Inr token \<Rightarrow>
          (case decrypt (cipher self) token of
             Inl e \<Rightarrow> Inl e
           | Inr decrypted \<Rightarrow> decode decrypted))"

text \<open>
  The statistics are computed in binary floating point (\<open>/\<close> on two ints, \<open>* 100\<close>,
  \<open>+ gas_spent\<close>). The float type and its four operations are parameters, so that
  what is proved holds for IEEE doubles as for any other reading of them.
\<close>

record 'f py_float =
  float_of_int :: "int \<Rightarrow> 'f"
  truediv :: "int \<Rightarrow> int \<Rightarrow> 'f"
  fmul :: "'f \<Rightarrow> 'f \<Rightarrow> 'f"
  fadd :: "'f \<Rightarrow> 'f \<Rightarrow> 'f"

text \<open>
  A wallet file as \<open>json.load\<close> returns it. \<open>add_wallet\<close> writes every key but
  \<open>success_rate\<close>; the counters are read with \<open>.get(key, 0)\<close>, so a counter may be
  absent (\<open>None\<close>).
\<close>

record 'f wallet =
  name :: string
  address :: string
  private_key_encrypted :: str
  created_at :: string
  last_used :: "string option"
  total_mints :: "int option"
  successful_mints :: "int option"
  failed_mints :: "int option"
  total_gas_spent :: "'f option"
  tags :: "string list"
  success_rate :: "'f option"

text \<open>The directory \<open>wallets/\<close>: the file \<open>wallets/<name>.json\<close>, if it exists.\<close>

type_synonym 'f wallets_dir = "string \<rightharpoonup> 'f wallet"

definition lower_char :: "char \<Rightarrow> char" where
  "lower_char c =
     (let n = (of_char c :: nat) in if 65 \<le> n \<and> n \<le> 90 then char_of (n + 32) else c)"

definition lower :: "string \<Rightarrow> string" where
  "lower s = map lower_char s"

definition get_or :: "'a option \<Rightarrow> 'a \<Rightarrow> 'a" where
  "get_or v d = (case v of Some x \<Rightarrow> x | None \<Rightarrow> d)"

text \<open>
  \<open>from_key\<close> is the account derivation of the client library: the address of a
  private key, or an exception for a key it rejects. \<open>now\<close> is the time stamp
  \<open>datetime.now().isoformat()\<close>.
\<close>

definition add_wallet ::
  "'f py_float \<Rightarrow> (str \<Rightarrow> py_error + string) \<Rightarrow> wallet_manager \<Rightarrow> nat \<Rightarrow> string
     \<Rightarrow> 'f wallets_dir \<Rightarrow> string \<Rightarrow> str \<Rightarrow> string option
     \<Rightarrow> py_error + (bool \<times> 'f wallets_dir)" where
  "add_wallet fl from_key self seed now dir wallet_name private_key public_key =
     (case from_key private_key of
        Inl e \<Rightarrow> Inr (False, dir)
      | Inr account_address \<Rightarrow>
          (if (case public_key of
                 Some given \<Rightarrow> given \<noteq> [] \<and> lower given \<noteq> lower account_address
               | None \<Rightarrow> False)
           then Inr (False, dir)
           else
             (case encrypt_private_key self seed private_key of
                Inl e \<Rightarrow> Inl e
              | Inr encrypted_key \<Rightarrow>
                  Inr (True,
                       dir(wallet_name \<mapsto>
                         \<lparr> name = wallet_name,
                           address = account_address,
                           private_key_encrypted = encrypted_key,
                           created_at = now,
                           last_used = None,
                           total_mints = Some 0,
                           successful_mints = Some 0,
                           failed_mints = Some 0,
                           total_gas_spent = Some (float_of_int fl 0),
                           tags = [],
                           success_rate = None \<rparr>)))))"

definition get_wallet :: "'f wallets_dir \<Rightarrow> string \<Rightarrow> 'f wallet option" where
  "get_wallet dir wallet_name = dir wallet_name"

text \<open>
  A failure to decrypt is caught here (\<open>except Exception\<close>) and becomes the return
  value \<open>None\<close>.
\<close>

definition get_wallet_private_key ::
  "wallet_manager \<Rightarrow> 'f wallets_dir \<Rightarrow> string \<Rightarrow> str option" where
  "get_wallet_private_key self dir wallet_name =
     (case get_wallet dir wallet_name of
        Some wallet \<Rightarrow>
          (case decrypt_private_key self (private_key_encrypted wallet) of
             Inr private_key \<Rightarrow> Some private_key
           | Inl e \<Rightarrow> None)
      | None \<Rightarrow> None)"

text \<open>
  \<open>wallet["successful_mints"]\<close> in the success rate is a subscript, not \<open>.get\<close>: it
  raises \<open>KeyError\<close> when the key is absent, and then the file is not written.
\<close>

definition update_wallet_stats ::
  "'f py_float \<Rightarrow> string \<Rightarrow> 'f wallets_dir \<Rightarrow> string \<Rightarrow> bool \<Rightarrow> 'f
     \<Rightarrow> py_error + (bool \<times> 'f wallets_dir)" where
  "update_wallet_stats fl now dir wallet_name success gas_spent =
     (case get_wallet dir wallet_name of
        None \<Rightarrow> Inr (False, dir)
      | Some wallet \<Rightarrow>
          (let w1 = wallet\<lparr>last_used := Some now\<rparr>;
               w2 = (if success
                     then w1\<lparr>successful_mints := Some (get_or (successful_mints w1) 0 + 1)\<rparr>
                     else w1\<lparr>failed_mints := Some (get_or (failed_mints w1) 0 + 1)\<rparr>);
               total_now = get_or (total_mints w2) 0 + 1;
               w3 = w2\<lparr>total_mints := Some total_now\<rparr>;
               w4 = w3\<lparr>total_gas_spent :=
                       Some (fadd fl (get_or (total_gas_spent w3) (float_of_int fl 0)) gas_spent)\<rparr>
           in if total_now > 0 then
                (case successful_mints w4 of
                   None \<Rightarrow> Inl KeyError
                 | Some successful \<Rightarrow>
                     Inr (True,
                          dir(wallet_name \<mapsto>
                            w4\<lparr>success_rate :=
                                 Some (fmul fl (truediv fl successful total_now)
                                         (float_of_int fl 100))\<rparr>)))
              else Inr (True, dir(wallet_name \<mapsto> w4))))"

section \<open>Numbers of the gas computation\<close>

text \<open>
  \<open>get_current_gas_price\<close> mixes three Python number types: \<open>int\<close> (the ceilings,
  the wei amounts), \<open>decimal.Decimal\<close> (what \<open>from_wei\<close> returns) and \<open>float\<close> (the
  literal \<open>0.1\<close>, the mint price). A \<open>Decimal\<close> is held as the rational it denotes;
  a \<open>float\<close> as the decimal its \<open>repr\<close> prints, which is how \<open>to_wei\<close> reads one
  that is 1 or more (\<open>Decimal(str(number))\<close>; for a smaller one the library rounds the
  binary value to the digits of the \<open>repr\<close>, taken here to give the same). Python refuses arithmetic between a \<open>Decimal\<close> and a
  \<open>float\<close> with \<open>TypeError\<close>, and compares them by value. Rounding (the context
  precision of \<open>Decimal\<close>, the binary rounding of \<open>float\<close>) is not modelled: sums and
  products are exact.
\<close>

datatype pynum = PyInt int | PyDecimal rat | PyFloat rat

fun num_value :: "pynum \<Rightarrow> rat" where
  "num_value (PyInt i) = of_int i"
| "num_value (PyDecimal d) = d"
| "num_value (PyFloat f) = f"

fun py_mul :: "pynum \<Rightarrow> pynum \<Rightarrow> py_error + pynum" where
  "py_mul (PyInt a) (PyInt b) = Inr (PyInt (a * b))"
| "py_mul (PyInt a) (PyDecimal b) = Inr (PyDecimal (of_int a * b))"
| "py_mul (PyInt a) (PyFloat b) = Inr (PyFloat (of_int a * b))"
| "py_mul (PyDecimal a) (PyInt b) = Inr (PyDecimal (a * of_int b))"
| "py_mul (PyDecimal a) (PyDecimal b) = Inr (PyDecimal (a * b))"
| "py_mul (PyDecimal a) (PyFloat b) = Inl TypeError"
| "py_mul (PyFloat a) (PyInt b) = Inr (PyFloat (a * of_int b))"
| "py_mul (PyFloat a) (PyDecimal b) = Inl TypeError"
| "py_mul (PyFloat a) (PyFloat b) = Inr (PyFloat (a * b))"

fun py_add :: "pynum \<Rightarrow> pynum \<Rightarrow> py_error + pynum" where
  "py_add (PyInt a) (PyInt b) = Inr (PyInt (a + b))"
| "py_add (PyInt a) (PyDecimal b) = Inr (PyDecimal (of_int a + b))"
| "py_add (PyInt a) (PyFloat b) = Inr (PyFloat (of_int a + b))"
| "py_add (PyDecimal a) (PyInt b) = Inr (PyDecimal (a + of_int b))"
| "py_add (PyDecimal a) (PyDecimal b) = Inr (PyDecimal (a + b))"
| "py_add (PyDecimal a) (PyFloat b) = Inl TypeError"
| "py_add (PyFloat a) (PyInt b) = Inr (PyFloat (a + of_int b))"
| "py_add (PyFloat a) (PyDecimal b) = Inl TypeError"
| "py_add (PyFloat a) (PyFloat b) = Inr (PyFloat (a + b))"

text \<open>\<open>min(a, b)\<close> returns its first argument unless the second is smaller.\<close>

definition py_min :: "pynum \<Rightarrow> pynum \<Rightarrow> pynum" where
  "py_min a b = (if num_value b < num_value a then b else a)"

definition MIN_WEI :: int where
  "MIN_WEI = 0"

definition MAX_WEI :: int where
  "MAX_WEI = 2 ^ 256 - 1"

text \<open>
  \<open>from_wei\<close> and \<open>to_wei\<close> of the client library (\<open>eth_utils.currency\<close>), with the
  unit given by its power of ten: 9 for \<open>'gwei'\<close>, 18 for \<open>'ether'\<close>. \<open>from_wei\<close>
  returns the int 0 for 0 and a \<open>Decimal\<close> otherwise; \<open>to_wei\<close> truncates to an int.
  Both raise \<open>ValueError\<close> outside the range of a 256-bit unsigned integer.
\<close>

definition from_wei :: "int \<Rightarrow> nat \<Rightarrow> py_error + pynum" where
  "from_wei number unit =
     (if number = 0 then Inr (PyInt 0)
      else if number < MIN_WEI \<or> number > MAX_WEI then Inl ValueError
      else Inr (PyDecimal (of_int number / 10 ^ unit)))"

definition to_wei :: "pynum \<Rightarrow> nat \<Rightarrow> py_error + int" where
  "to_wei number unit =
     (let d_number = num_value number; result_value = d_number * 10 ^ unit
      in if d_number = 0 then Inr 0
         else if result_value < of_int MIN_WEI \<or> result_value > of_int MAX_WEI
         then Inl ValueError
         else Inr \<lfloor>result_value\<rfloor>)"

definition gwei :: nat where
  "gwei = 9"

definition ether :: nat where
  "ether = 18"

section \<open>The bot and what it consults\<close>

record bot =
  network :: string
  private_key :: "str option"
  public_key :: string
  wallet_name :: string
  contract_address :: string
  mint_price :: rat
  max_gas_price :: int
  max_priority_fee :: int
  max_retries :: int
  retry_delay :: rat
  check_interval :: rat
  total_attempts :: int
  successful_mints :: int

datatype gas_params =
    GasPrice int
  | MaxFee int int

text \<open>A contract function called with arguments: \<open>contract.functions.<name>(<args>)\<close>.\<close>

datatype fn_call = Call string "int list"

text \<open>
  The transaction dictionary. \<open>gas\<close> is absent until it is estimated; \<open>data\<close> is what
  \<open>build_transaction\<close> adds. \<open>MaxFee f p\<close> stands for the two keys \<open>maxFeePerGas = f\<close>
  and \<open>maxPriorityFeePerGas = p\<close>, \<open>GasPrice g\<close> for the key \<open>gasPrice = g\<close>.
\<close>

record transaction =
  tx_from :: string
  tx_to :: string
  tx_value :: int
  nonce :: int
  chainId :: int
  fee :: gas_params
  gas :: "int option"
  data :: "fn_call option"

text \<open>
  What lies outside the bot and answers during one attempt: the node behind the RPC
  endpoint (\<open>self.w3.eth\<close>), the contract object, and the account library that signs.
  The receipt of a submitted transaction depends on when it is asked for: the second
  argument of \<open>get_transaction_receipt\<close> counts the polls of that transaction.
  \<open>buffered g\<close> is \<open>int(g * 1.2)\<close>, a floating-point product truncated to an int.
\<close>

record world =
  isPublicMintActive :: "py_error + bool"
  mintActive :: "py_error + bool"
  get_transaction_count :: "string \<Rightarrow> py_error + int"
  baseFeePerGas :: "py_error + int option"
  gas_price :: "py_error + int"
  chain_id :: "py_error + int"
  estimate_gas :: "transaction \<Rightarrow> py_error + int"
  buffered :: "int \<Rightarrow> int"
  build_transaction :: "fn_call \<Rightarrow> transaction \<Rightarrow> py_error + transaction"
  sign_transaction :: "transaction \<Rightarrow> str option \<Rightarrow> py_error + bytes"
  send_raw_transaction :: "bytes \<Rightarrow> py_error + string"
  get_transaction_receipt :: "string \<Rightarrow> nat \<Rightarrow> py_error + receipt option"

section \<open>Gas pricing (\<open>get_current_gas_price\<close>)\<close>

text \<open>
  The body of the \<open>try\<close>: \<open>Inr (Some g)\<close> when it reaches its \<open>return\<close>,
  \<open>Inr None\<close> when \<open>if base_fee:\<close> is false (the base fee is \<open>None\<close> or 0), \<open>Inl e\<close>
  when it raises.
\<close>

definition dynamic_fee :: "bot \<Rightarrow> world \<Rightarrow> py_error + gas_params option" where
  "dynamic_fee self w =
     (case baseFeePerGas w of
        Inl e \<Rightarrow> Inl e
      | Inr None \<Rightarrow> Inr None
      | Inr (Some base_fee) \<Rightarrow>
          (if base_fee = 0 then Inr None
           else
             (case from_wei base_fee gwei of
                Inl e \<Rightarrow> Inl e
              | Inr base_fee_gwei \<Rightarrow>
                  (case py_mul base_fee_gwei (PyFloat (1 / 10)) of
                     Inl e \<Rightarrow> Inl e
                   | Inr tenth \<Rightarrow>
                       (let max_priority = py_min (PyInt (max_priority_fee self)) tenth in
                        case py_add base_fee_gwei max_priority of
                          Inl e \<Rightarrow> Inl e
                        | Inr fee_sum \<Rightarrow>
                            (let max_fee = py_min (PyInt (max_gas_price self)) fee_sum in
                             case to_wei max_fee gwei of
                               Inl e \<Rightarrow> Inl e
                             | Inr maxFeePerGas \<Rightarrow>
                                 (case to_wei max_priority gwei of
                                    Inl e \<Rightarrow> Inl e
                                  | Inr maxPriorityFeePerGas \<Rightarrow>
                                      Inr (Some (MaxFee maxFeePerGas maxPriorityFeePerGas)))))))))"

text \<open>
  The bare \<open>except: pass\<close> swallows whatever the \<open>try\<close> raised; the legacy path
  after it is not inside any handler.
\<close>

definition get_current_gas_price :: "bot \<Rightarrow> world \<Rightarrow> py_error + gas_params" where
  "get_current_gas_price self w =
     (case dynamic_fee self w of
        Inr (Some params) \<Rightarrow> Inr params
      | _ \<Rightarrow>
          (case gas_price w of
             Inl e \<Rightarrow> Inl e
           | Inr observed \<Rightarrow>
               (case to_wei (PyInt (max_gas_price self)) gwei of
                  Inl e \<Rightarrow> Inl e
                | Inr ceiling_wei \<Rightarrow> Inr (GasPrice (min observed ceiling_wei)))))"

section \<open>Transaction builder (\<open>create_mint_transaction\<close>)\<close>

text \<open>
  \<open>prepare_transaction\<close> is the first half of the function, up to the gas limit:
  the nonce, the gas parameters, the mint price in wei and the chain id are computed
  outside any handler, so an exception there leaves the function; the gas estimate
  has a handler of its own. The second half tries the entry point as \<open>mint()\<close> and
  then as \<open>publicMint()\<close>, and returns \<open>None\<close> when neither builds.
\<close>

definition prepare_transaction :: "bot \<Rightarrow> world \<Rightarrow> py_error + transaction" where
  "prepare_transaction self w =
     (case get_transaction_count w (public_key self) of
        Inl e \<Rightarrow> Inl e
      | Inr nonce_now \<Rightarrow>
          (case get_current_gas_price self w of
             Inl e \<Rightarrow> Inl e
           | Inr gas_params \<Rightarrow>
               (case to_wei (PyFloat (mint_price self)) ether of
                  Inl e \<Rightarrow> Inl e
                | Inr mint_price_wei \<Rightarrow>
                    (case chain_id w of
                       Inl e \<Rightarrow> Inl e
                     | Inr chain \<Rightarrow>
                         (let transaction =
                                \<lparr> tx_from = public_key self,
                                  tx_to = contract_address self,
                                  tx_value = mint_price_wei,
                                  nonce = nonce_now,
                                  chainId = chain,
                                  fee = gas_params,
                                  gas = None,
                                  data = None \<rparr>
                          in Inr (transaction\<lparr>gas :=
                                    Some (case estimate_gas w transaction of
                                            Inr gas_estimate \<Rightarrow> buffered w gas_estimate
                                          | Inl e \<Rightarrow> 200000)\<rparr>))))))"

definition create_mint_transaction :: "bot \<Rightarrow> world \<Rightarrow> py_error + transaction option" where
  "create_mint_transaction self w =
     (case prepare_transaction self w of
        Inl e \<Rightarrow> Inl e
      | Inr transaction \<Rightarrow>
          (case build_transaction w (Call ''mint'' []) transaction of
             Inr mint_tx \<Rightarrow> Inr (Some mint_tx)
           | Inl e \<Rightarrow>
               (case build_transaction w (Call ''publicMint'' []) transaction of
                  Inr mint_tx \<Rightarrow> Inr (Some mint_tx)
                | Inl e \<Rightarrow> Inr None)))"

definition send_transaction :: "world \<Rightarrow> bytes \<Rightarrow> string option" where
  "send_transaction w signed_tx =
     (case send_raw_transaction w signed_tx of
        Inr tx_hash \<Rightarrow> Some tx_hash
      | Inl e \<Rightarrow> None)"

section \<open>One attempt (\<open>attempt_mint\<close>)\<close>

text \<open>
  The places where \<open>attempt_mint\<close> returns, named as the specification names the
  terminal states: the readiness check said no, the builder returned \<open>None\<close>, the
  submission returned \<open>None\<close>, the three results of the confirmation wait, and the
  handler \<open>except Exception\<close> around the whole body. \<open>returned\<close> is the Boolean the
  source returns at that place.
\<close>

datatype outcome =
    NotReady
  | BuildFailure
  | SendFailure
  | ConfirmedSuccess
  | ConfirmedFailure
  | TimedOut
  | CaughtException py_error

fun terminal :: "wait_result \<Rightarrow> outcome" where
  "terminal ReceiptSuccess = ConfirmedSuccess"
| "terminal ReceiptFailure = ConfirmedFailure"
| "terminal NoReceipt = TimedOut"

fun returned :: "outcome \<Rightarrow> bool" where
  "returned ConfirmedSuccess = True"
| "returned NotReady = False"
| "returned BuildFailure = False"
| "returned SendFailure = False"
| "returned ConfirmedFailure = False"
| "returned TimedOut = False"
| "returned (CaughtException e) = False"

text \<open>
  \<open>submit\<close> is the body of \<open>attempt_mint\<close> up to the submission: the events so far,
  and either the place where the attempt has already returned (or raised into the
  handler), or the hash of the transaction it has sent. A hash that is \<open>None\<close> or empty
  fails the test \<open>if not tx_hash\<close>.
\<close>

definition submit :: "world \<Rightarrow> bot \<Rightarrow> event list \<times> (outcome + string)" where
  "submit w self =
     (if \<not> check_mint_status (isPublicMintActive w) (mintActive w) then ([], Inl NotReady)
      else
        (case create_mint_transaction self w of
           Inl e \<Rightarrow> ([CreateTx], Inl (CaughtException e))
         | Inr None \<Rightarrow> ([CreateTx], Inl BuildFailure)
         | Inr (Some transaction) \<Rightarrow>
             (case sign_transaction w transaction (private_key self) of
                Inl e \<Rightarrow> ([CreateTx, SignTx], Inl (CaughtException e))
              | Inr signed_tx \<Rightarrow>
                  (case send_transaction w signed_tx of
                     None \<Rightarrow> ([CreateTx, SignTx, SendRaw], Inl SendFailure)
                   | Some tx_hash \<Rightarrow>
                       (if tx_hash = [] then ([CreateTx, SignTx, SendRaw], Inl SendFailure)
                        else ([CreateTx, SignTx, SendRaw], Inr tx_hash))))))"

definition attempt_mint :: "world \<Rightarrow> bot \<Rightarrow> event list \<times> outcome \<times> bot" where
  "attempt_mint w self =
     (case submit w self of
        (evs, Inl out) \<Rightarrow> (evs, out, self)
      | (evs, Inr tx_hash) \<Rightarrow>
          (case wait_for_transaction (get_transaction_receipt w tx_hash) of
             (polled, Inl e) \<Rightarrow> (evs @ polled, CaughtException e, self)
           | (polled, Inr confirmation) \<Rightarrow>
               (evs @ polled, terminal confirmation,
                if wait_success confirmation
                then self\<lparr>successful_mints := successful_mints self + 1\<rparr>
                else self)))"

section \<open>The mint loop (\<open>run_continuous_mint\<close>)\<close>

text \<open>
  One entry per iteration of the \<open>while\<close> loop: the attempt number it announced, what
  the attempt did and how it ended, and the seconds the loop slept after it, if it
  slept.
\<close>

record iteration =
  attempt_no :: int
  events :: "event list"
  result :: outcome
  slept :: "rat option"

text \<open>
  The loop has no bound of its own, so the model runs it against a script: the list of
  worlds that the successive attempts meet. When the script is used up and the loop
  condition still holds, the loop has not returned (\<open>StillRunning\<close>): it would start
  another attempt. \<open>Returned\<close> is the exit of the \<open>while\<close>, by its condition or by
  \<open>break\<close>.
\<close>

datatype loop_status = Returned | StillRunning

fun run_continuous_mint ::
  "int \<Rightarrow> world list \<Rightarrow> bot \<Rightarrow> iteration list \<times> loop_status \<times> bot" where
  "run_continuous_mint target_count [] self =
     ([], if successful_mints self < target_count then StillRunning else Returned, self)"
| "run_continuous_mint target_count (w # ws) self =
     (if successful_mints self < target_count then
        (let counted = self\<lparr>total_attempts := total_attempts self + 1\<rparr> in
         case attempt_mint w counted of
           (evs, out, after) \<Rightarrow>
             (let success = returned out in
              if success \<and> successful_mints after \<ge> target_count then
                ([\<lparr> attempt_no = total_attempts counted, events = evs, result = out,
                    slept = None \<rparr>],
                 Returned, after)
              else
                (case run_continuous_mint target_count ws after of
                   (its, st, final) \<Rightarrow>
                     (\<lparr> attempt_no = total_attempts counted, events = evs, result = out,
                        slept = (if \<not> success then Some (retry_delay after) else None) \<rparr>
                      # its,
                      st, final))))
      else ([], Returned, self))"

declare run_continuous_mint.simps [simp del]

section \<open>Construction (\<open>NFTMintingBot.__init__\<close>)\<close>

text \<open>
  The environment variables the constructor reads. The numeric settings are given as
  \<open>int(os.getenv(...))\<close> and \<open>float(os.getenv(...))\<close> return them, defaults applied, or
  as the \<open>ValueError\<close> these raise. \<open>contract_setup\<close> is the construction of the
  contract object, which raises for an address that is not one.
\<close>

record environ =
  RPC_URL_ETH :: "string option"
  RPC_URL_POLYGON :: "string option"
  RPC_URL_ARBITRUM :: "string option"
  PRIVATE_KEY :: "str option"
  PUBLIC_KEY :: "string option"
  CONTRACT_ADDRESS :: "string option"
  MINT_FUNCTION_ABI :: "string option"
  abi_is_json :: bool
  contract_setup :: "py_error + unit"
  MINT_PRICE :: "py_error + rat"
  MAX_GAS_PRICE_GWEI :: "py_error + int"
  MAX_PRIORITY_FEE_GWEI :: "py_error + int"
  RETRY_COUNT :: "py_error + int"
  RETRY_DELAY :: "py_error + rat"
  CHECK_INTERVAL :: "py_error + rat"

definition setup_network_config :: "environ \<Rightarrow> string \<Rightarrow> py_error + string" where
  "setup_network_config env net =
     (let rpc_url =
            (if net = ''ethereum'' then RPC_URL_ETH env
             else if net = ''polygon'' then RPC_URL_POLYGON env
             else if net = ''arbitrum'' then RPC_URL_ARBITRUM env
             else None)
      in case rpc_url of
           None \<Rightarrow> Inl ValueError
         | Some url \<Rightarrow> if url = [] then Inl ValueError else Inr url)"

text \<open>
  The wallet part of the constructor: the private key, the public key and the wallet
  name it settles on. A wallet that does not exist raises; a key that does not decrypt
  does not (\<open>get_wallet_private_key\<close> has returned \<open>None\<close>).
\<close>

definition load_wallet ::
  "environ \<Rightarrow> wallet_manager \<Rightarrow> 'f wallets_dir \<Rightarrow> string option
     \<Rightarrow> py_error + (str option \<times> string option \<times> string)" where
  "load_wallet env manager dir wallet_name_arg =
     (case wallet_name_arg of
        None \<Rightarrow> Inr (PRIVATE_KEY env, PUBLIC_KEY env, ''default'')
      | Some wname \<Rightarrow>
          (if wname = [] then Inr (PRIVATE_KEY env, PUBLIC_KEY env, ''default'')
           else
             (case get_wallet dir wname of
                Some wallet_data \<Rightarrow>
                  Inr (get_wallet_private_key manager dir wname,
                       Some (address wallet_data), wname)
              | None \<Rightarrow> Inl ValueError)))"

definition load_contract :: "environ \<Rightarrow> py_error + string" where
  "load_contract env =
     (case (CONTRACT_ADDRESS env, MINT_FUNCTION_ABI env) of
        (Some addr, Some abi) \<Rightarrow>
          (if addr = [] \<or> abi = [] then Inl ValueError
           else if \<not> abi_is_json env then Inl ValueError
           else (case contract_setup env of Inl e \<Rightarrow> Inl e | Inr u \<Rightarrow> Inr addr))
      | _ \<Rightarrow> Inl ValueError)"

definition init ::
  "environ \<Rightarrow> wallet_manager \<Rightarrow> 'f wallets_dir \<Rightarrow> string \<Rightarrow> string option
     \<Rightarrow> py_error + bot" where
  "init env manager dir network_arg wallet_name_arg =
     (case setup_network_config env (lower network_arg) of
        Inl e \<Rightarrow> Inl e
      | Inr rpc_url \<Rightarrow>
     (case load_wallet env manager dir wallet_name_arg of
        Inl e \<Rightarrow> Inl e
      | Inr (key, pub, wname) \<Rightarrow>
     (case load_contract env of
        Inl e \<Rightarrow> Inl e
      | Inr addr \<Rightarrow>
     (case MINT_PRICE env of Inl e \<Rightarrow> Inl e | Inr price \<Rightarrow>
     (case MAX_GAS_PRICE_GWEI env of Inl e \<Rightarrow> Inl e | Inr max_gas \<Rightarrow>
     (case MAX_PRIORITY_FEE_GWEI env of Inl e \<Rightarrow> Inl e | Inr max_priority \<Rightarrow>
     (case RETRY_COUNT env of Inl e \<Rightarrow> Inl e | Inr retries \<Rightarrow>
     (case RETRY_DELAY env of Inl e \<Rightarrow> Inl e | Inr delay \<Rightarrow>
     (case CHECK_INTERVAL env of Inl e \<Rightarrow> Inl e | Inr interval \<Rightarrow>
     (case pub of
        None \<Rightarrow> Inl TypeError
      | Some pub_key \<Rightarrow>
          Inr \<lparr> network = lower network_arg,
                private_key = key,
                public_key = pub_key,
                wallet_name = wname,
                contract_address = addr,
                mint_price = price,
                max_gas_price = max_gas,
                max_priority_fee = max_priority,
                max_retries = retries,
                retry_delay = delay,
                check_interval = interval,
                total_attempts = 0,
                successful_mints = 0 \<rparr>))))))))))"

section \<open>Notions for stating the properties\<close>

text \<open>
  A poll that brings no receipt: the call returned \<open>None\<close> or raised
  \<open>TransactionNotFound\<close>.
\<close>

definition no_receipt :: "(py_error + receipt option) \<Rightarrow> bool" where
  "no_receipt answer \<longleftrightarrow> answer = Inr None \<or> answer = Inl TransactionNotFound"

text \<open>\<open>k\<close> polls without a receipt, each followed by its two seconds of sleep.\<close>

definition cadence :: "nat \<Rightarrow> event list" where
  "cadence k = concat (replicate k [GetReceipt, Sleep 2])"

definition polls :: "event list \<Rightarrow> nat" where
  "polls evs = length (filter (\<lambda>e. e = GetReceipt) evs)"

fun seconds :: "event \<Rightarrow> rat" where
  "seconds (Sleep s) = s"
| "seconds _ = 0"

definition seconds_slept :: "event list \<Rightarrow> rat" where
  "seconds_slept evs = sum_list (map seconds evs)"

text \<open>The number of iterations that ended in \<open>ConfirmedSuccess\<close>.\<close>

definition successes :: "iteration list \<Rightarrow> nat" where
  "successes its = length (filter (\<lambda>it. result it = ConfirmedSuccess) its)"

section \<open>Example inputs\<close>

text \<open>
  \<open>erc721_mint\<close> is the table \<open>Config.COMMON_ABIS["erc721_mint"]\<close>, each entry by its
  name and the number of its inputs. \<open>example_world abi receipts\<close> is a node that
  answers every call and reports the public mint active, a contract whose interface
  is \<open>abi\<close> (a call builds when the interface has a function of its name and number
  of arguments), an account library that refuses to sign without a key, and the given
  answers to the receipt polls.
\<close>

definition erc721_mint :: "(string \<times> nat) list" where
  "erc721_mint = [(''mint'', 0), (''publicMint'', 0), (''mintPublic'', 0), (''mint'', 1)]"

definition example_bot :: bot where
  "example_bot =
     \<lparr> network = ''ethereum'', private_key = Some [0x61], public_key = ''0xA1'',
       wallet_name = ''default'', contract_address = ''0xC0'', mint_price = 1 / 20,
       max_gas_price = 100, max_priority_fee = 2, max_retries = 50, retry_delay = 1 / 2,
       check_interval = 1, total_attempts = 0, successful_mints = 0 \<rparr>"

definition example_world ::
  "(string \<times> nat) list \<Rightarrow> (nat \<Rightarrow> py_error + receipt option) \<Rightarrow> world" where
  "example_world abi receipts =
     \<lparr> isPublicMintActive = Inr True,
       mintActive = Inl MismatchedABI,
       get_transaction_count = (\<lambda>account. Inr 7),
       baseFeePerGas = Inr (Some 20000000000),
       gas_price = Inr 150000000000,
       chain_id = Inr 1,
       estimate_gas = (\<lambda>t. Inr 100000),
       buffered = (\<lambda>g. g * 6 div 5),
       build_transaction =
         (\<lambda>c t. case c of Call f args \<Rightarrow>
            if (f, length args) \<in> set abi then Inr (t\<lparr>data := Some c\<rparr>) else Inl MismatchedABI),
       sign_transaction =
         (\<lambda>t key. case key of None \<Rightarrow> Inl TypeError | Some k \<Rightarrow> Inr [0x02, 0xF8]),
       send_raw_transaction = (\<lambda>raw. Inr ''0xabc''),
       get_transaction_receipt = (\<lambda>tx_hash. receipts) \<rparr>"

text \<open>
  Worlds in which the receipt is there at the first poll, with status 1 and with
  status 0; a world in which the mint is not active; and a script of six attempts.
\<close>

definition minted_world :: world where
  "minted_world = example_world erc721_mint (\<lambda>i. Inr (Some \<lparr>status = 1\<rparr>))"

definition reverted_world :: world where
  "reverted_world = example_world erc721_mint (\<lambda>i. Inr (Some \<lparr>status = 0\<rparr>))"

definition closed_world :: world where
  "closed_world = (example_world erc721_mint (\<lambda>i. Inr None))\<lparr>isPublicMintActive := Inr False\<rparr>"

definition example_script :: "world list" where
  "example_script =
     [reverted_world, minted_world, minted_world, closed_world, minted_world, minted_world]"

text \<open>A node that cannot be reached for the base fee nor for the gas price.\<close>

definition offline_world :: world where
  "offline_world =
     (example_world erc721_mint (\<lambda>i. Inr None))
       \<lparr>baseFeePerGas := Inl ConnectionError, gas_price := Inl ConnectionError\<rparr>"

text \<open>
  A key store whose cipher does not hold the key the wallet was encrypted with (every
  token is refused), a wallet directory with one wallet, and an environment with a
  complete contract configuration.
\<close>

definition wrong_key_manager :: wallet_manager where
  "wrong_key_manager =
     \<lparr> cipher = \<lparr> encrypt = (\<lambda>seed plain. plain), decrypt = (\<lambda>token. Inl InvalidToken) \<rparr> \<rparr>"

definition example_dir :: "rat wallets_dir" where
  "example_dir =
     [''main'' \<mapsto>
        \<lparr> name = ''main'', address = ''0xA1'', private_key_encrypted = [0x67, 0x41, 0x41],
          created_at = ''2024-01-01T00:00:00'', last_used = None, total_mints = Some 0,
          successful_mints = Some 0, failed_mints = Some 0, total_gas_spent = Some 0,
          tags = [], success_rate = None \<rparr>]"

definition example_environ :: environ where
  "example_environ =
     \<lparr> RPC_URL_ETH = Some ''https://rpc'', RPC_URL_POLYGON = None, RPC_URL_ARBITRUM = None,
       PRIVATE_KEY = None, PUBLIC_KEY = None,
       CONTRACT_ADDRESS = Some ''0xC0'', MINT_FUNCTION_ABI = Some ''[]'', abi_is_json = True,
       contract_setup = Inr (), MINT_PRICE = Inr (1 / 20), MAX_GAS_PRICE_GWEI = Inr 100,
       MAX_PRIORITY_FEE_GWEI = Inr 2, RETRY_COUNT = Inr 50, RETRY_DELAY = Inr (1 / 2),
       CHECK_INTERVAL = Inr 1 \<rparr>"

text \<open>
  What \<open>build_transaction\<close> of the client library answers to
  \<open>create_mint_transaction\<close>: the dictionary it is given has the key \<open>'to'\<close> (line
  152) and the contract object has an address (lines 65-68), and for such a pair the
  library raises \<open>ValueError\<close>, whatever the call. \<open>refusing_world\<close> is the example
  world with this builder.
\<close>

definition refusing_build :: "fn_call \<Rightarrow> transaction \<Rightarrow> py_error + transaction" where
  "refusing_build c t = Inl ValueError"

definition refusing_world :: world where
  "refusing_world =
     (example_world erc721_mint (\<lambda>i. Inr None))\<lparr>build_transaction := refusing_build\<rparr>"

text \<open>A call is in an interface when the interface has its name with its number of inputs.\<close>

fun in_interface :: "(string \<times> nat) list \<Rightarrow> fn_call \<Rightarrow> bool" where
  "in_interface abi (Call f args) \<longleftrightarrow> (f, length args) \<in> set abi"

section \<open>Notions and examples for the key store\<close>

text \<open>
  A sequence of calls of \<open>update_wallet_stats\<close> for one wallet, each with its time
  stamp, success flag and gas spent; an exception ends it.
\<close>

fun update_many ::
  "'f py_float \<Rightarrow> 'f wallets_dir \<Rightarrow> string \<Rightarrow> (string \<times> bool \<times> 'f) list
     \<Rightarrow> py_error + 'f wallets_dir" where
  "update_many fl dir wname [] = Inr dir"
| "update_many fl dir wname ((now, success, gas_spent) # later) =
     (case update_wallet_stats fl now dir wname success gas_spent of
        Inl e \<Rightarrow> Inl e
      | Inr (saved, dir') \<Rightarrow> update_many fl dir' wname later)"

definition wins :: "(string \<times> bool \<times> 'f) list \<Rightarrow> nat" where
  "wins us = length (filter (\<lambda>u. fst (snd u)) us)"

definition losses :: "(string \<times> bool \<times> 'f) list \<Rightarrow> nat" where
  "losses us = length (filter (\<lambda>u. \<not> fst (snd u)) us)"

text \<open>Floats read as exact rationals: one instance of the float operations.\<close>

definition exact_float :: "rat py_float" where
  "exact_float =
     \<lparr> float_of_int = of_int, truediv = (\<lambda>a b. of_int a / of_int b),
       fmul = (\<lambda>x y. x * y), fadd = (\<lambda>x y. x + y) \<rparr>"

definition example_updates :: "(string \<times> bool \<times> rat) list" where
  "example_updates =
     [(''2024-01-02T10:00:00'', True, 1 / 100), (''2024-01-02T10:00:05'', False, 0),
      (''2024-01-02T10:00:09'', True, 1 / 50)]"

text \<open>
  A stand-in for the cipher: every byte becomes two letters (its two hexadecimal digits
  counted from \<open>A\<close>), and decryption refuses whatever is not of this form.
\<close>

fun hex_encrypt :: "bytes \<Rightarrow> bytes" where
  "hex_encrypt [] = []"
| "hex_encrypt (b # bs) = (65 + b div 16) # (65 + b mod 16) # hex_encrypt bs"

fun hex_decrypt :: "bytes \<Rightarrow> py_error + bytes" where
  "hex_decrypt [] = Inr []"
| "hex_decrypt [x] = Inl InvalidToken"
| "hex_decrypt (x # y # rest) =
     (if 65 \<le> x \<and> x < 81 \<and> 65 \<le> y \<and> y < 81 then
        (case hex_decrypt rest of
           Inl e \<Rightarrow> Inl e
         | Inr bs \<Rightarrow> Inr (((x - 65) * 16 + (y - 65)) # bs))
      else Inl InvalidToken)"

definition hex_manager :: wallet_manager where
  "hex_manager = \<lparr> cipher = \<lparr> encrypt = (\<lambda>seed. hex_encrypt), decrypt = hex_decrypt \<rparr> \<rparr>"

text \<open>
  Byte strings, ASCII byte strings, and the code points that have a UTF-8 encoding
  (every code point of a \<open>str\<close> but the surrogates).
\<close>

definition is_bytes :: "bytes \<Rightarrow> bool" where
  "is_bytes bs \<longleftrightarrow> list_all (\<lambda>b. b < 256) bs"

definition is_ascii :: "bytes \<Rightarrow> bool" where
  "is_ascii bs \<longleftrightarrow> list_all (\<lambda>b. b < 128) bs"

definition scalar_value :: "nat \<Rightarrow> bool" where
  "scalar_value c \<longleftrightarrow> c < 0x110000 \<and> \<not> (0xD800 \<le> c \<and> c < 0xE000)"

text \<open>
  \<open>m.decrypt_private_key(m.encrypt_private_key(k))\<close>: an exception of the inner call
  is the exception of the whole.
\<close>

definition round_trip :: "wallet_manager \<Rightarrow> nat \<Rightarrow> str \<Rightarrow> py_error + str" where
  "round_trip self seed key =
     (case encrypt_private_key self seed key of
        Inl e \<Rightarrow> Inl e
      | Inr encrypted_key \<Rightarrow> decrypt_private_key self encrypted_key)"

section \<open>The confirmation wait: lemmas\<close>

lemma wait_loop_no_receipt:
  "attempts < max_attempts \<Longrightarrow> no_receipt (rc attempts) \<Longrightarrow>
     wait_loop rc attempts =
       (case wait_loop rc (attempts + 1) of (evs, r) \<Rightarrow> (GetReceipt # Sleep 2 # evs, r))"
  by (subst wait_loop.simps) (auto simp: no_receipt_def)

lemma wait_loop_skip:
  "attempts + k \<le> max_attempts \<Longrightarrow> (\<forall>i<k. no_receipt (rc (attempts + i))) \<Longrightarrow>
     wait_loop rc attempts =
       (case wait_loop rc (attempts + k) of (evs, r) \<Rightarrow> (cadence k @ evs, r))"
proof (induction k arbitrary: attempts)
  case 0
  then show ?case by (simp add: cadence_def split: prod.splits)
next
  case (Suc k)
  have lt: "attempts < max_attempts" using Suc.prems(1) by simp
  have nr: "no_receipt (rc attempts)" using Suc.prems(2) by (metis add.right_neutral zero_less_Suc)
  have rest: "\<forall>i<k. no_receipt (rc (attempts + 1 + i))"
    using Suc.prems(2) by (metis Suc_eq_plus1 Suc_less_eq add_Suc_right add_Suc_shift)
  obtain evs r where w: "wait_loop rc (attempts + 1 + k) = (evs, r)"
    by (cases "wait_loop rc (attempts + 1 + k)")
  have ih: "wait_loop rc (attempts + 1) = (cadence k @ evs, r)"
    using Suc.IH[of "attempts + 1"] Suc.prems(1) rest w by simp
  have step: "wait_loop rc attempts = (GetReceipt # Sleep 2 # cadence k @ evs, r)"
    using wait_loop_no_receipt[of attempts rc, OF lt nr] ih by simp
  have idx: "attempts + Suc k = attempts + 1 + k" by simp
  show ?case
    unfolding idx w using step by (simp add: cadence_def)
qed

lemma wait_loop_end: "wait_loop rc max_attempts = ([], Inr NoReceipt)"
  by (subst wait_loop.simps) simp

lemma wait_loop_receipt:
  "attempts < max_attempts \<Longrightarrow> rc attempts = Inr (Some r) \<Longrightarrow>
     wait_loop rc attempts =
       ([GetReceipt], Inr (if status r = 1 then ReceiptSuccess else ReceiptFailure))"
  by (subst wait_loop.simps) simp

lemma wait_timeout:
  "(\<forall>i<max_attempts. no_receipt (rc i)) \<Longrightarrow>
     wait_for_transaction rc = (cadence max_attempts, Inr NoReceipt)"
  using wait_loop_skip[of 0 max_attempts rc]
  by (simp add: wait_for_transaction_def wait_loop_end)

lemma wait_receipt:
  "k < max_attempts \<Longrightarrow> (\<forall>i<k. no_receipt (rc i)) \<Longrightarrow> rc k = Inr (Some r) \<Longrightarrow>
     wait_for_transaction rc =
       (cadence k @ [GetReceipt], Inr (if status r = 1 then ReceiptSuccess else ReceiptFailure))"
  using wait_loop_skip[of 0 k rc] wait_loop_receipt[of k rc r]
  by (simp add: wait_for_transaction_def)

lemma polls_wait_loop: "polls (fst (wait_loop rc attempts)) \<le> max_attempts - attempts"
proof (induction rc attempts rule: wait_loop.induct)
  case (1 rc attempts)
  show ?case
  proof (cases "attempts < max_attempts")
    case False
    then show ?thesis by (subst wait_loop.simps) (simp add: polls_def)
  next
    case True
    show ?thesis
      using True "1.IH"
      by (subst wait_loop.simps)
         (auto simp: polls_def split: sum.splits option.splits prod.splits)
  qed
qed

lemma wait_loop_events:
  "e \<in> set (fst (wait_loop rc attempts)) \<Longrightarrow> e = GetReceipt \<or> e = Sleep 2"
proof (induction rc attempts rule: wait_loop.induct)
  case (1 rc attempts)
  show ?case
  proof (cases "attempts < max_attempts")
    case False
    then show ?thesis using "1.prems" by (subst (asm) wait_loop.simps) simp
  next
    case True
    show ?thesis
      using True "1.IH" "1.prems"
      by (subst (asm) wait_loop.simps)
         (auto split: sum.splits option.splits prod.splits if_splits)
  qed
qed

lemma polls_cadence: "polls (cadence k) = k"
  by (induction k) (simp_all add: polls_def cadence_def)

lemma seconds_cadence: "seconds_slept (cadence k) = 2 * of_nat k"
  by (induction k) (simp_all add: seconds_slept_def cadence_def algebra_simps)

section \<open>Attempts and the loop: lemmas\<close>

lemma wait_success_terminal: "wait_success r \<longleftrightarrow> terminal r = ConfirmedSuccess"
  by (cases r) simp_all

lemma returned_iff: "returned out \<longleftrightarrow> out = ConfirmedSuccess"
  by (cases out) simp_all

lemma submit_early:
  "submit w b = (evs, Inl out) \<Longrightarrow>
     out \<noteq> ConfirmedSuccess \<and> out \<noteq> ConfirmedFailure \<and> out \<noteq> TimedOut"
  unfolding submit_def
  by (auto split: if_splits sum.splits option.splits)

lemma attempt_effect:
  "attempt_mint w b = (evs, out, b') \<Longrightarrow>
     b' = (if out = ConfirmedSuccess then b\<lparr>successful_mints := successful_mints b + 1\<rparr> else b)"
  unfolding attempt_mint_def
  by (auto simp: wait_success_terminal dest: submit_early
        split: if_splits sum.splits prod.splits)

lemma attempt_after_submit:
  "submit w b = (pre, Inr h) \<Longrightarrow> wait_for_transaction (get_transaction_receipt w h) = (polled, Inr c) \<Longrightarrow>
     attempt_mint w b =
       (pre @ polled, terminal c,
        if wait_success c then b\<lparr>successful_mints := successful_mints b + 1\<rparr> else b)"
  by (simp add: attempt_mint_def)

lemma run_nil:
  "run_continuous_mint target [] b =
     ([], if successful_mints b < target then StillRunning else Returned, b)"
  by (simp add: run_continuous_mint.simps)

lemma run_done:
  "\<not> successful_mints b < target \<Longrightarrow> run_continuous_mint target ws b = ([], Returned, b)"
  by (cases ws) (simp_all add: run_continuous_mint.simps)

lemma run_step:
  assumes below: "successful_mints b < target"
    and att: "attempt_mint w (b\<lparr>total_attempts := total_attempts b + 1\<rparr>) = (evs, out, after)"
  shows "run_continuous_mint target (w # ws) b =
     (if out = ConfirmedSuccess \<and> target \<le> successful_mints after then
        ([\<lparr> attempt_no = total_attempts b + 1, events = evs, result = out, slept = None \<rparr>],
         Returned, after)
      else
        (case run_continuous_mint target ws after of
           (its, st, fin) \<Rightarrow>
             (\<lparr> attempt_no = total_attempts b + 1, events = evs, result = out,
                slept = (if out = ConfirmedSuccess then None else Some (retry_delay b)) \<rparr> # its,
              st, fin)))"
proof -
  have after: "after = (if out = ConfirmedSuccess
      then b\<lparr>total_attempts := total_attempts b + 1, successful_mints := successful_mints b + 1\<rparr>
      else b\<lparr>total_attempts := total_attempts b + 1\<rparr>)"
    using attempt_effect[OF att] by simp
  have rd: "retry_delay after = retry_delay b"
    using after by (simp split: if_splits)
  show ?thesis
    using below att rd
    by (simp add: run_continuous_mint.simps returned_iff Let_def split: prod.splits)
qed

lemma run_invariants:
  "run_continuous_mint target ws b = (its, st, fin) \<Longrightarrow>
     (st = Returned \<longleftrightarrow> target \<le> successful_mints fin)
     \<and> successful_mints fin = successful_mints b + int (successes its)
     \<and> total_attempts fin = total_attempts b + int (length its)
     \<and> (st = StillRunning \<longrightarrow> length its = length ws)
     \<and> (successful_mints b \<le> target \<longrightarrow> successful_mints fin \<le> target)
     \<and> (\<forall>it\<in>set its. slept it =
            (if result it = ConfirmedSuccess then None else Some (retry_delay b)))
     \<and> retry_delay fin = retry_delay b"
proof (induction ws arbitrary: b its st fin)
  case Nil
  then show ?case by (auto simp: run_nil successes_def split: if_splits)
next
  case (Cons w ws)
  show ?case
  proof (cases "successful_mints b < target")
    case False
    then show ?thesis using Cons.prems run_done[of b target "w # ws"] by (simp add: successes_def)
  next
    case True
    obtain evs out after
      where att: "attempt_mint w (b\<lparr>total_attempts := total_attempts b + 1\<rparr>) = (evs, out, after)"
      by (cases "attempt_mint w (b\<lparr>total_attempts := total_attempts b + 1\<rparr>)") auto
    have after: "after = (if out = ConfirmedSuccess
        then b\<lparr>total_attempts := total_attempts b + 1, successful_mints := successful_mints b + 1\<rparr>
        else b\<lparr>total_attempts := total_attempts b + 1\<rparr>)"
      using attempt_effect[OF att] by simp
    note step = run_step[OF True att, of ws]
    have rd: "retry_delay after = retry_delay b" using after by (simp split: if_splits)
    have sm: "successful_mints after = successful_mints b + (if out = ConfirmedSuccess then 1 else 0)"
      using after by (simp split: if_splits)
    have ta: "total_attempts after = total_attempts b + 1"
      using after by (simp split: if_splits)
    show ?thesis
    proof (cases "out = ConfirmedSuccess \<and> target \<le> successful_mints after")
      case stop: True
      then have "its = [\<lparr> attempt_no = total_attempts b + 1, events = evs, result = out, slept = None \<rparr>]"
        and "st = Returned" and "fin = after"
        using step Cons.prems by simp_all
      moreover have "out = ConfirmedSuccess" and "target \<le> successful_mints after"
        using stop by simp_all
      ultimately show ?thesis using sm ta rd True by (simp add: successes_def)
    next
      case go: False
      obtain its' st' fin' where rest: "run_continuous_mint target ws after = (its', st', fin')"
        by (cases "run_continuous_mint target ws after") auto
      have its: "its = \<lparr> attempt_no = total_attempts b + 1, events = evs, result = out,
                slept = (if out = ConfirmedSuccess then None else Some (retry_delay b)) \<rparr> # its'"
        and st: "st = st'" and fin: "fin = fin'"
        using step go rest Cons.prems by simp_all
      note ih = Cons.IH[OF rest]
      have le: "successful_mints after \<le> target" using sm True by (simp split: if_splits)
      show ?thesis
        using ih unfolding its st fin rd sm ta
        using le sm by (auto simp: successes_def)
    qed
  qed
qed

lemma run_first:
  "successful_mints b < target \<Longrightarrow> run_continuous_mint target (w # ws) b = (its, st, fin) \<Longrightarrow>
     its \<noteq> [] \<and> attempt_no (hd its) = total_attempts b + 1"
proof -
  assume below: "successful_mints b < target"
    and run: "run_continuous_mint target (w # ws) b = (its, st, fin)"
  obtain evs out after
    where att: "attempt_mint w (b\<lparr>total_attempts := total_attempts b + 1\<rparr>) = (evs, out, after)"
    by (cases "attempt_mint w (b\<lparr>total_attempts := total_attempts b + 1\<rparr>)") auto
  show ?thesis
    using run_step[OF below att, of ws] run
    by (auto split: if_splits prod.splits)
qed

lemma run_last:
  "run_continuous_mint target ws b = (its, st, fin) \<Longrightarrow> its \<noteq> [] \<Longrightarrow> st = Returned \<Longrightarrow>
     result (last its) = ConfirmedSuccess"
proof (induction ws arbitrary: b its st fin)
  case Nil
  then show ?case by (simp add: run_nil)
next
  case (Cons w ws)
  have below: "successful_mints b < target"
  proof (rule ccontr)
    assume n: "\<not> successful_mints b < target"
    have "(its, st, fin) = ([], Returned, b)"
      using run_done[OF n, of "w # ws"] Cons.prems(1) by (simp only:)
    then show False using Cons.prems(2) by simp
  qed
  obtain evs out after
    where att: "attempt_mint w (b\<lparr>total_attempts := total_attempts b + 1\<rparr>) = (evs, out, after)"
    by (cases "attempt_mint w (b\<lparr>total_attempts := total_attempts b + 1\<rparr>)") auto
  note step = run_step[OF below att, of ws]
  show ?case
  proof (cases "out = ConfirmedSuccess \<and> target \<le> successful_mints after")
    case True
    then show ?thesis using step Cons.prems by auto
  next
    case False
    obtain its' st' fin' where rest: "run_continuous_mint target ws after = (its', st', fin')"
      by (cases "run_continuous_mint target ws after") auto
    have its: "its = \<lparr> attempt_no = total_attempts b + 1, events = evs, result = out,
                slept = (if out = ConfirmedSuccess then None else Some (retry_delay b)) \<rparr> # its'"
      and st: "st = st'"
      using step False rest Cons.prems by simp_all
    have sm: "successful_mints after = successful_mints b + (if out = ConfirmedSuccess then 1 else 0)"
      using attempt_effect[OF att] by (simp split: if_splits)
    have "its' \<noteq> []"
    proof
      assume "its' = []"
      then have "st' = Returned \<longrightarrow> target \<le> successful_mints after"
        using run_invariants[OF rest] by (simp add: successes_def)
      then show False using False st Cons.prems(3) sm below by (auto split: if_splits)
    qed
    then show ?thesis using Cons.IH[OF rest] its st Cons.prems(3) by simp
  qed
qed

lemma run_not_ready:
  "\<not> check_mint_status (isPublicMintActive w) (mintActive w) \<Longrightarrow> successful_mints b < target \<Longrightarrow>
     run_continuous_mint target (replicate n w) b =
       (map (\<lambda>i. \<lparr> attempt_no = total_attempts b + 1 + int i, events = [], result = NotReady,
                    slept = Some (retry_delay b) \<rparr>) [0..<n],
        StillRunning, b\<lparr>total_attempts := total_attempts b + int n\<rparr>)"
proof (induction n arbitrary: b)
  case 0
  then show ?case by (simp add: run_nil)
next
  case (Suc n)
  let ?c = "b\<lparr>total_attempts := total_attempts b + 1\<rparr>"
  have att: "attempt_mint w ?c = ([], NotReady, ?c)"
    using Suc.prems(1) by (simp add: attempt_mint_def submit_def)
  have below: "successful_mints ?c < target" using Suc.prems(2) by simp
  have ih: "run_continuous_mint target (replicate n w) ?c =
       (map (\<lambda>i. \<lparr> attempt_no = total_attempts ?c + 1 + int i, events = [], result = NotReady,
                    slept = Some (retry_delay ?c) \<rparr>) [0..<n],
        StillRunning, ?c\<lparr>total_attempts := total_attempts ?c + int n\<rparr>)"
    by (rule Suc.IH[OF Suc.prems(1) below])
  have m: "map (\<lambda>i. \<lparr> attempt_no = total_attempts b + 1 + int i, events = [], result = NotReady,
                    slept = Some (retry_delay b) \<rparr>) [0..<Suc n]
      = \<lparr> attempt_no = total_attempts b + 1, events = [], result = NotReady,
                    slept = Some (retry_delay b) \<rparr>
        # map (\<lambda>i. \<lparr> attempt_no = total_attempts ?c + 1 + int i, events = [], result = NotReady,
                    slept = Some (retry_delay ?c) \<rparr>) [0..<n]"
    by (simp add: upt_conv_Cons map_Suc_upt[symmetric] del: upt_Suc) 
  show ?case
    unfolding m replicate_Suc
    using run_step[OF Suc.prems(2) att, of "replicate n w"] ih
    by (simp add: algebra_simps)
qed

lemma ex_submit_any:
  "submit (example_world erc721_mint rc) (example_bot\<lparr>total_attempts := n, successful_mints := m\<rparr>)
     = ([CreateTx, SignTx, SendRaw], Inr ''0xabc'')"
  by (simp add: submit_def example_world_def example_bot_def erc721_mint_def check_mint_status_def
      create_mint_transaction_def prepare_transaction_def get_current_gas_price_def dynamic_fee_def
      from_wei_def to_wei_def gwei_def ether_def MIN_WEI_def MAX_WEI_def send_transaction_def py_min_def)

lemma successes_le: "successes its \<le> length its"
  by (simp add: successes_def)

section \<open>Gas pricing, construction and the builder: lemmas\<close>

lemma dynamic_fee_never:
  "dynamic_fee self w \<noteq> Inr (Some params)"
  unfolding dynamic_fee_def from_wei_def
  by (auto split: sum.splits option.splits if_splits)

lemma gas_price_legacy:
  "get_current_gas_price self w =
     (case gas_price w of
        Inl e \<Rightarrow> Inl e
      | Inr observed \<Rightarrow>
          (case to_wei (PyInt (max_gas_price self)) gwei of
             Inl e \<Rightarrow> Inl e
           | Inr ceiling_wei \<Rightarrow> Inr (GasPrice (min observed ceiling_wei))))"
  using dynamic_fee_never[of self w]
  unfolding get_current_gas_price_def
  by (auto split: sum.splits option.splits)

lemma to_wei_int:
  "to_wei (PyInt g) gwei =
     (if g < 0 \<or> MAX_WEI < g * 10 ^ 9 then Inl ValueError else Inr (g * 10 ^ 9))"
proof -
  have e: "(of_int g :: rat) * 10 ^ 9 = of_int (g * 10 ^ 9)" by simp
  have z: "MIN_WEI = 0" by (simp add: MIN_WEI_def)
  have m: "0 \<le> MAX_WEI" by (simp add: MAX_WEI_def)
  show ?thesis
    unfolding to_wei_def gwei_def Let_def num_value.simps e z
    using m by (auto simp: of_int_less_iff simp del: of_int_mult of_int_power)
qed

lemma legacy_when_base_fee_fails:
  "baseFeePerGas w = Inl e \<Longrightarrow>
     get_current_gas_price self w =
       (case gas_price w of
          Inl e \<Rightarrow> Inl e
        | Inr observed \<Rightarrow>
            (case to_wei (PyInt (max_gas_price self)) gwei of
               Inl e \<Rightarrow> Inl e
             | Inr ceiling_wei \<Rightarrow> Inr (GasPrice (min observed ceiling_wei))))"
  by (simp add: get_current_gas_price_def dynamic_fee_def)

lemma init_fields:
  "init env manager dir net wn = Inr self \<Longrightarrow> load_wallet env manager dir wn = Inr (key, pub, wname) \<Longrightarrow>
     private_key self = key \<and> total_attempts self = 0 \<and> successful_mints self = 0"
  unfolding init_def
  by (auto split: sum.splits option.splits prod.splits)

lemma attempt_sign_fails:
  "check_mint_status (isPublicMintActive w) (mintActive w) \<Longrightarrow>
   create_mint_transaction self w = Inr (Some t) \<Longrightarrow>
   sign_transaction w t (private_key self) = Inl e \<Longrightarrow>
     attempt_mint w self = ([CreateTx, SignTx], CaughtException e, self)"
  by (simp add: attempt_mint_def submit_def)

lemma prepare_ignores_build:
  "prepare_transaction self (w\<lparr>build_transaction := f\<rparr>) = prepare_transaction self w"
proof -
  have d: "dynamic_fee self (w\<lparr>build_transaction := f\<rparr>) = dynamic_fee self w"
    by (simp add: dynamic_fee_def)
  have g: "get_current_gas_price self (w\<lparr>build_transaction := f\<rparr>) = get_current_gas_price self w"
    by (simp add: get_current_gas_price_def d split: sum.splits option.splits)
  show ?thesis
    by (simp add: prepare_transaction_def g split: sum.splits)
qed

lemma ex_prepare:
  "prepare_transaction example_bot (example_world abi rc) =
     Inr \<lparr> tx_from = ''0xA1'', tx_to = ''0xC0'', tx_value = 50000000000000000, nonce = 7,
           chainId = 1, fee = GasPrice 100000000000, gas = Some 120000, data = None \<rparr>"
  by (simp add: prepare_transaction_def get_current_gas_price_def dynamic_fee_def from_wei_def
      MAX_WEI_def example_bot_def example_world_def to_wei_def ether_def gwei_def MIN_WEI_def)

lemma create_when_prepare_fails:
  "prepare_transaction self w = Inl e \<Longrightarrow> create_mint_transaction self w = Inl e"
  by (simp add: create_mint_transaction_def)

lemma prepare_result:
  "prepare_transaction self w =
     (case get_transaction_count w (public_key self) of
        Inl e \<Rightarrow> Inl e
      | Inr n \<Rightarrow>
          (case get_current_gas_price self w of
             Inl e \<Rightarrow> Inl e
           | Inr g \<Rightarrow>
               (case to_wei (PyFloat (mint_price self)) ether of
                  Inl e \<Rightarrow> Inl e
                | Inr v \<Rightarrow>
                    (case chain_id w of
                       Inl e \<Rightarrow> Inl e
                     | Inr c \<Rightarrow>
                         Inr \<lparr> tx_from = public_key self, tx_to = contract_address self,
                               tx_value = v, nonce = n, chainId = c, fee = g,
                               gas = Some (case estimate_gas w
                                             \<lparr> tx_from = public_key self,
                                               tx_to = contract_address self, tx_value = v,
                                               nonce = n, chainId = c, fee = g, gas = None,
                                               data = None \<rparr> of
                                           Inr est \<Rightarrow> buffered w est
                                         | Inl x \<Rightarrow> 200000),
                               data = None \<rparr>))))"
  by (simp add: prepare_transaction_def Let_def split: sum.splits)

lemma attempt_when_gas_price_raises:
  assumes gp: "get_current_gas_price self w = Inl err"
    and ready: "check_mint_status (isPublicMintActive w) (mintActive w)"
    and nonce: "get_transaction_count w (public_key self) = Inr n"
  shows "attempt_mint w self = ([CreateTx], CaughtException err, self)"
proof -
  have "prepare_transaction self w = Inl err"
    using gp nonce by (simp add: prepare_result)
  then have "create_mint_transaction self w = Inl err"
    by (rule create_when_prepare_fails)
  then show ?thesis using ready by (simp add: attempt_mint_def submit_def)
qed

section \<open>The key store: lemmas\<close>

lemma wins_losses: "wins us + losses us = length us"
  by (simp add: wins_def losses_def sum_length_filter_compl)

lemma update_step:
  assumes w: "dir n = Some w"
    and t: "total_mints w = Some t" and s: "wallet.successful_mints w = Some s"
    and f: "failed_mints w = Some f" and pos: "0 \<le> t"
  shows "\<exists>dir' w'. update_wallet_stats fl now dir n success spent = Inr (True, dir')
      \<and> dir' n = Some w'
      \<and> total_mints w' = Some (t + 1)
      \<and> wallet.successful_mints w' = Some (if success then s + 1 else s)
      \<and> failed_mints w' = Some (if success then f else f + 1)
      \<and> success_rate w' =
          Some (fmul fl (truediv fl (if success then s + 1 else s) (t + 1)) (float_of_int fl 100))"
  using w t s f pos
  by (cases success) (simp_all add: update_wallet_stats_def get_wallet_def get_or_def Let_def)

lemma update_many_counts:
  assumes w: "dir n = Some w"
    and t: "total_mints w = Some t" and s: "wallet.successful_mints w = Some s"
    and f: "failed_mints w = Some f" and pos: "0 \<le> t"
  shows "\<exists>dir' w'. update_many fl dir n us = Inr dir'
      \<and> dir' n = Some w'
      \<and> total_mints w' = Some (t + int (length us))
      \<and> wallet.successful_mints w' = Some (s + int (wins us))
      \<and> failed_mints w' = Some (f + int (losses us))
      \<and> (us \<noteq> [] \<longrightarrow> success_rate w' =
            Some (fmul fl (truediv fl (s + int (wins us)) (t + int (length us)))
                    (float_of_int fl 100)))
      \<and> (us = [] \<longrightarrow> success_rate w' = success_rate w)"
  using assms
proof (induction us arbitrary: dir w t s f rule: rev_induct)
  case Nil
  then show ?case by (simp add: wins_def losses_def)
next
  case (snoc u us)
  obtain now success spent where u: "u = (now, success, spent)" by (cases u) auto
  obtain dir1 w1 where r1: "update_many fl dir n us = Inr dir1" and d1: "dir1 n = Some w1"
    and t1: "total_mints w1 = Some (t + int (length us))"
    and s1: "wallet.successful_mints w1 = Some (s + int (wins us))"
    and f1: "failed_mints w1 = Some (f + int (losses us))"
    using snoc.IH[of dir w t s f] snoc.prems by blast
  have pos1: "0 \<le> t + int (length us)" using snoc.prems(5) by simp
  obtain dir2 w2 where r2: "update_wallet_stats fl now dir1 n success spent = Inr (True, dir2)"
    and d2: "dir2 n = Some w2"
    and t2: "total_mints w2 = Some (t + int (length us) + 1)"
    and s2: "wallet.successful_mints w2 = Some (if success then s + int (wins us) + 1 else s + int (wins us))"
    and f2: "failed_mints w2 = Some (if success then f + int (losses us) else f + int (losses us) + 1)"
    and sr: "success_rate w2 =
          Some (fmul fl (truediv fl (if success then s + int (wins us) + 1 else s + int (wins us))
                   (t + int (length us) + 1)) (float_of_int fl 100))"
    using update_step[where dir = dir1 and n = n and w = w1 and t = "t + int (length us)"
        and s = "s + int (wins us)" and f = "f + int (losses us)" and fl = fl and now = now
        and success = success and spent = spent]
      d1 t1 s1 f1 pos1 by (auto simp: algebra_simps)
  have app: "update_many fl dir n (us @ [u]) = Inr dir2"
    using r1 r2 u
  proof (induction us arbitrary: dir)
    case Nil
    then show ?case by simp
  next
    case (Cons a us)
    obtain an asx ag where a: "a = (an, asx, ag)" by (cases a) auto
    show ?case using Cons a by (auto split: sum.splits prod.splits)
  qed
  show ?case
    using app d2 t2 s2 f2 sr u
    by (auto simp: wins_def losses_def ac_simps)
qed

lemma add_wallet_fresh:
  "add_wallet fl from_key manager seed created dir n key pub = Inr (True, dir0) \<Longrightarrow>
     \<exists>w. dir0 n = Some w \<and> total_mints w = Some 0 \<and> wallet.successful_mints w = Some 0
       \<and> failed_mints w = Some 0 \<and> success_rate w = None"
  unfolding add_wallet_def
  by (auto split: sum.splits if_splits option.splits)

lemma div_bounds:
  fixes c :: nat
  shows "lo * d \<le> c \<Longrightarrow> c < hi * d \<Longrightarrow> lo \<le> c div d \<and> c div d < hi"
  by (metis div_le_mono div_mult_self1_is_m less_mult_imp_div_less mult.commute
      nonzero_mult_div_cancel_right not_less0 mult_is_0 less_nat_zero_code div_by_0 mult_0_right gr_zeroI)

lemma decode_2:
  assumes "0x80 \<le> c" "c < 0x800"
  shows "decode ((0xC0 + c div 0x40) # (0x80 + c mod 0x40) # rest) = prepend c (decode rest)"
proof -
  have d: "2 \<le> c div 0x40 \<and> c div 0x40 < 32"
    using div_bounds[of 2 "0x40" c 32] assms by simp
  have b: "continuation (0x80 + c mod 0x40)" by (simp add: continuation_def)
  have r: "c div 0x40 * 0x40 + c mod 0x40 = c" by simp
  show ?thesis
    using d b r by simp
qed

lemma decode_3:
  assumes lo: "0x800 \<le> c" and hi: "c < 0x10000" and ns: "\<not> (0xD800 \<le> c \<and> c < 0xE000)"
  shows "decode ((0xE0 + c div 0x1000) # (0x80 + c div 0x40 mod 0x40) # (0x80 + c mod 0x40) # rest)
           = prepend c (decode rest)"
proof -
  define q1 where "q1 = c div 0x1000"
  define q0 where "q0 = c div 0x40 mod 0x40"
  define r where "r = c mod 0x40"
  have q1: "c div 0x40 div 0x40 = q1" by (simp add: q1_def div_mult2_eq[symmetric])
  have c: "c = q1 * 4096 + q0 * 64 + r"
  proof -
    have "c = c div 0x40 * 0x40 + r" by (simp add: r_def)
    moreover have "c div 0x40 = q1 * 0x40 + q0"
      unfolding q0_def q1[symmetric] by simp
    ultimately show ?thesis by simp
  qed
  have bnd: "q0 < 64" "r < 64" by (simp_all add: q0_def r_def)
  have q1b: "q1 < 16" using c hi by simp
  have e0: "q1 = 0 \<longrightarrow> 32 \<le> q0" using c lo bnd by auto
  have ed: "q1 = 13 \<longrightarrow> q0 < 32" using c ns bnd by auto
  have k: "continuation (0x80 + q0)" "continuation (0x80 + r)"
    using bnd by (simp_all add: continuation_def)
  have "decode ((0xE0 + q1) # (0x80 + q0) # (0x80 + r) # rest) = prepend c (decode rest)"
    using q1b e0 ed k c by simp
  then show ?thesis by (simp add: q1_def q0_def r_def)
qed

lemma decode_4:
  assumes lo: "0x10000 \<le> c" and hi: "c < 0x110000"
  shows "decode ((0xF0 + c div 0x40000) # (0x80 + c div 0x1000 mod 0x40)
                 # (0x80 + c div 0x40 mod 0x40) # (0x80 + c mod 0x40) # rest)
           = prepend c (decode rest)"
proof -
  define q2 where "q2 = c div 0x40000"
  define q1 where "q1 = c div 0x1000 mod 0x40"
  define q0 where "q0 = c div 0x40 mod 0x40"
  define r where "r = c mod 0x40"
  have d1: "c div 0x40 div 0x40 = c div 0x1000" by (simp add: div_mult2_eq[symmetric])
  have d2: "c div 0x1000 div 0x40 = q2" by (simp add: q2_def div_mult2_eq[symmetric])
  have c: "c = q2 * 262144 + q1 * 4096 + q0 * 64 + r"
  proof -
    have "c = c div 0x40 * 0x40 + r" by (simp add: r_def)
    moreover have "c div 0x40 = c div 0x1000 * 0x40 + q0"
      unfolding q0_def d1[symmetric] by simp
    moreover have "c div 0x1000 = q2 * 0x40 + q1"
      unfolding q1_def d2[symmetric] by simp
    ultimately show ?thesis by simp
  qed
  have bnd: "q1 < 64" "q0 < 64" "r < 64" by (simp_all add: q1_def q0_def r_def)
  have q2b: "q2 < 5" using c hi by simp
  have f0: "q2 = 0 \<longrightarrow> 16 \<le> q1" using c lo bnd by auto
  have f4: "q2 = 4 \<longrightarrow> q1 < 16" using c hi bnd by auto
  have k: "continuation (0x80 + q1)" "continuation (0x80 + q0)" "continuation (0x80 + r)"
    using bnd by (simp_all add: continuation_def)
  have "decode ((0xF0 + q2) # (0x80 + q1) # (0x80 + q0) # (0x80 + r) # rest)
      = prepend c (decode rest)"
    using q2b f0 f4 k c by simp
  then show ?thesis by (simp add: q2_def q1_def q0_def r_def)
qed

lemma mod_64_small: "(x::nat) mod 64 < 128"
proof -
  have "x mod 64 < 64" by simp
  then show ?thesis by linarith
qed

lemma encode_char_round:
  assumes "scalar_value c"
  shows "\<exists>bs. encode_char c = Inr bs \<and> is_bytes bs
           \<and> (\<forall>rest. decode (bs @ rest) = prepend c (decode rest))"
proof -
  consider (one) "c < 0x80" | (two) "0x80 \<le> c" "c < 0x800"
    | (three) "0x800 \<le> c" "c < 0x10000" "\<not> (0xD800 \<le> c \<and> c < 0xE000)"
    | (four) "0x10000 \<le> c" "c < 0x110000"
    using assms unfolding scalar_value_def by linarith
  then show ?thesis
  proof cases
    case one
    then show ?thesis by (simp add: encode_char_def is_bytes_def)
  next
    case two
    have d: "c div 0x40 < 32" using div_bounds[of 0 "0x40" c 32] two by simp
    have e: "encode_char c = Inr [0xC0 + c div 0x40, 0x80 + c mod 0x40]"
      using two by (simp add: encode_char_def)
    have b: "is_bytes [0xC0 + c div 0x40, 0x80 + c mod 0x40]"
      using d by (simp add: is_bytes_def mod_64_small)
    show ?thesis unfolding e using b decode_2[OF two] by simp
  next
    case three
    have d: "c div 0x1000 < 16" using div_bounds[of 0 "0x1000" c 16] three by simp
    have e: "encode_char c
        = Inr [0xE0 + c div 0x1000, 0x80 + c div 0x40 mod 0x40, 0x80 + c mod 0x40]"
      using three by (simp add: encode_char_def)
    have b: "is_bytes [0xE0 + c div 0x1000, 0x80 + c div 0x40 mod 0x40, 0x80 + c mod 0x40]"
      using d by (simp add: is_bytes_def mod_64_small)
    show ?thesis unfolding e using b decode_3[OF three] by simp
  next
    case four
    have d: "c div 0x40000 < 5" using div_bounds[of 0 "0x40000" c 5] four by simp
    have e: "encode_char c
        = Inr [0xF0 + c div 0x40000, 0x80 + c div 0x1000 mod 0x40,
               0x80 + c div 0x40 mod 0x40, 0x80 + c mod 0x40]"
      using four by (simp add: encode_char_def)
    have b: "is_bytes [0xF0 + c div 0x40000, 0x80 + c div 0x1000 mod 0x40,
               0x80 + c div 0x40 mod 0x40, 0x80 + c mod 0x40]"
      using d by (simp add: is_bytes_def mod_64_small)
    show ?thesis unfolding e using b decode_4[OF four] by simp
  qed
qed

lemma encode_decode:
  "list_all scalar_value k \<Longrightarrow> \<exists>bs. encode k = Inr bs \<and> is_bytes bs \<and> decode bs = Inr k"
proof (induction k)
  case Nil
  then show ?case by (simp add: is_bytes_def)
next
  case (Cons c cs)
  obtain bs where bs: "encode_char c = Inr bs" "is_bytes bs"
    "\<And>rest. decode (bs @ rest) = prepend c (decode rest)"
    using encode_char_round[of c] Cons.prems by auto
  obtain more where more: "encode cs = Inr more" "is_bytes more" "decode more = Inr cs"
    using Cons by auto
  have "encode (c # cs) = Inr (bs @ more)" using bs(1) more(1) by simp
  moreover have "is_bytes (bs @ more)" using bs(2) more(2) by (simp add: is_bytes_def)
  moreover have "decode (bs @ more) = Inr (c # cs)"
    using bs(3)[of more] more(3) by (simp add: prepend_def)
  ultimately show ?case by blast
qed

lemma ascii_codec: "is_ascii t \<Longrightarrow> decode t = Inr t \<and> encode t = Inr t"
  by (induction t) (simp_all add: is_ascii_def prepend_def encode_char_def)

lemma surrogate_not_encodable: "encode [0xD800] = Inl UnicodeEncodeError"
  by (simp add: encode_char_def)

lemma hex_round:
  "is_bytes plain \<Longrightarrow> is_ascii (hex_encrypt plain) \<and> hex_decrypt (hex_encrypt plain) = Inr plain"
proof (induction plain)
  case Nil
  then show ?case by (simp add: is_ascii_def)
next
  case (Cons b bs)
  have b: "b < 256" and rest: "is_bytes bs" using Cons.prems by (simp_all add: is_bytes_def)
  have d: "b div 16 < 16" using div_bounds[of 0 16 b 16] b by simp
  have m: "b mod 16 < 16" by simp
  have r: "b div 16 * 16 + b mod 16 = b" by simp
  show ?case
    using Cons.IH[OF rest] d m r by (simp add: is_ascii_def)
qed

section \<open>Properties\<close>

text \<open>
  C7. When both readiness queries are unavailable (each raises, whatever it raises),
  \<open>check_mint_status\<close> returns ready, and any two calls under that condition return the
  same.
\<close>

theorem readiness_default:
  "check_mint_status (Inl e1) (Inl e2) = True
   \<and> check_mint_status (Inl e1) (Inl e2) = check_mint_status (Inl e1') (Inl e2')"
  by (simp add: check_mint_status_def)

text \<open>
  C5. For an attempt that has submitted a transaction: the confirmation wait polls at
  most 30 times and every sleep in it lasts 2 seconds; a receipt at poll \<open>k < 30\<close>, none
  before it, ends the attempt after \<open>k\<close> sleeps as \<open>ConfirmedSuccess\<close> when its status is
  1 (the success counter goes up by one) and as \<open>ConfirmedFailure\<close> otherwise; no receipt
  in 30 polls ends it as \<open>TimedOut\<close> after 30 polls and 60 seconds of sleep, the attempt
  returns \<open>False\<close> and leaves the bot unchanged, and the loop then sleeps the retry
  delay and, if the script goes on, starts the next attempt.
\<close>

theorem confirmation_wait_outcomes:
  assumes sub: "submit w b = (pre, Inr h)"
  shows
    "polls (fst (wait_for_transaction (get_transaction_receipt w h))) \<le> 30
     \<and> (\<forall>e \<in> set (fst (wait_for_transaction (get_transaction_receipt w h))).
           e = GetReceipt \<or> e = Sleep 2)
     \<and> (\<forall>k r. k < 30 \<and> (\<forall>i<k. no_receipt (get_transaction_receipt w h i))
               \<and> get_transaction_receipt w h k = Inr (Some r) \<longrightarrow>
           attempt_mint w b =
             (pre @ cadence k @ [GetReceipt],
              if status r = 1 then ConfirmedSuccess else ConfirmedFailure,
              if status r = 1 then b\<lparr>successful_mints := successful_mints b + 1\<rparr> else b))
     \<and> ((\<forall>i<30. no_receipt (get_transaction_receipt w h i)) \<longrightarrow>
           attempt_mint w b = (pre @ cadence 30, TimedOut, b)
           \<and> polls (cadence 30) = 30 \<and> seconds_slept (cadence 30) = 60
           \<and> \<not> returned TimedOut
           \<and> (\<forall>target b0 ws.
                 b = b0\<lparr>total_attempts := total_attempts b0 + 1\<rparr> \<and> successful_mints b0 < target \<longrightarrow>
                 run_continuous_mint target (w # ws) b0 =
                   (case run_continuous_mint target ws b of
                      (its, st, fin) \<Rightarrow>
                        (\<lparr> attempt_no = total_attempts b0 + 1, events = pre @ cadence 30,
                           result = TimedOut, slept = Some (retry_delay b0) \<rparr> # its,
                         st, fin))
                 \<and> (ws \<noteq> [] \<longrightarrow> 2 \<le> length (fst (run_continuous_mint target (w # ws) b0)))))"
proof -
  let ?rc = "get_transaction_receipt w h"
  have p1: "polls (fst (wait_for_transaction ?rc)) \<le> 30"
    using polls_wait_loop[of ?rc 0] by (simp add: wait_for_transaction_def max_attempts_def)
  have p2: "\<forall>e \<in> set (fst (wait_for_transaction ?rc)). e = GetReceipt \<or> e = Sleep 2"
    using wait_loop_events[of _ ?rc 0] by (auto simp: wait_for_transaction_def)
  have p3: "attempt_mint w b =
             (pre @ cadence k @ [GetReceipt],
              if status r = 1 then ConfirmedSuccess else ConfirmedFailure,
              if status r = 1 then b\<lparr>successful_mints := successful_mints b + 1\<rparr> else b)"
    if "k < 30" "\<forall>i<k. no_receipt (?rc i)" "?rc k = Inr (Some r)" for k r
    using attempt_after_submit[OF sub wait_receipt[of k ?rc r]] that
    by (simp add: max_attempts_def)
  have p4: "attempt_mint w b = (pre @ cadence 30, TimedOut, b)"
    if "\<forall>i<30. no_receipt (?rc i)"
    using attempt_after_submit[OF sub wait_timeout[of ?rc]] that
    by (simp add: max_attempts_def)
  have p5: "run_continuous_mint target (w # ws) b0 =
                   (case run_continuous_mint target ws b of
                      (its, st, fin) \<Rightarrow>
                        (\<lparr> attempt_no = total_attempts b0 + 1, events = pre @ cadence 30,
                           result = TimedOut, slept = Some (retry_delay b0) \<rparr> # its,
                         st, fin))
                 \<and> (ws \<noteq> [] \<longrightarrow> 2 \<le> length (fst (run_continuous_mint target (w # ws) b0)))"
    if no: "\<forall>i<30. no_receipt (?rc i)"
      and b: "b = b0\<lparr>total_attempts := total_attempts b0 + 1\<rparr>"
      and below: "successful_mints b0 < target" for target b0 ws
  proof -
    have att: "attempt_mint w (b0\<lparr>total_attempts := total_attempts b0 + 1\<rparr>) = (pre @ cadence 30, TimedOut, b)"
      using p4[OF no] b by simp
    have step: "run_continuous_mint target (w # ws) b0 =
                   (case run_continuous_mint target ws b of
                      (its, st, fin) \<Rightarrow>
                        (\<lparr> attempt_no = total_attempts b0 + 1, events = pre @ cadence 30,
                           result = TimedOut, slept = Some (retry_delay b0) \<rparr> # its,
                         st, fin))"
      using run_step[OF below att, of ws] by simp
    have next_one: "2 \<le> length (fst (run_continuous_mint target (w # ws) b0))" if ne: "ws \<noteq> []"
    proof -
      obtain w' ws' where ws: "ws = w' # ws'" using ne by (cases ws) auto
      obtain its st fin where rest: "run_continuous_mint target (w' # ws') b = (its, st, fin)"
        by (cases "run_continuous_mint target (w' # ws') b") auto
      have "successful_mints b < target" using b below by simp
      from run_first[OF this rest] have "its \<noteq> []" by simp
      then have "1 \<le> length its" by (cases its) auto
      moreover have "fst (run_continuous_mint target (w # ws) b0)
          = \<lparr> attempt_no = total_attempts b0 + 1, events = pre @ cadence 30,
              result = TimedOut, slept = Some (retry_delay b0) \<rparr> # its"
        using step rest ws by simp
      ultimately show ?thesis by simp
    qed
    show ?thesis using step next_one by blast
  qed
  have p6: "polls (cadence 30) = 30" by (rule polls_cadence)
  have p7: "seconds_slept (cadence 30) = 60" using seconds_cadence[of 30] by simp
  have p8: "\<not> returned TimedOut" by simp
  show ?thesis
    using p1 p2 p3 p4 p5 p6 p7 p8 by blast
qed

theorem confirmation_wait_witness:
  "attempt_mint (example_world erc721_mint (\<lambda>i. Inr None)) example_bot
     = ([CreateTx, SignTx, SendRaw] @ cadence 30, TimedOut, example_bot)
   \<and> attempt_mint
         (example_world erc721_mint
            (\<lambda>i. if i < 2 then Inl TransactionNotFound else Inr (Some \<lparr>status = 1\<rparr>)))
         example_bot
     = ([CreateTx, SignTx, SendRaw] @ cadence 2 @ [GetReceipt], ConfirmedSuccess,
        example_bot\<lparr>successful_mints := 1\<rparr>)"
proof -
  have s: "submit (example_world erc721_mint rc) example_bot = ([CreateTx, SignTx, SendRaw], Inr ''0xabc'')"
    for rc
    using ex_submit_any[of rc 0 0] by (simp add: example_bot_def)
  have a: "attempt_mint (example_world erc721_mint (\<lambda>i. Inr None)) example_bot
     = ([CreateTx, SignTx, SendRaw] @ cadence 30, TimedOut, example_bot)"
    using confirmation_wait_outcomes[OF s[of "\<lambda>i. Inr None"]]
    by (simp add: example_world_def no_receipt_def)
  let ?rc = "\<lambda>i::nat. if i < 2 then Inl TransactionNotFound else Inr (Some \<lparr>status = 1\<rparr>)"
  have b: "attempt_mint (example_world erc721_mint ?rc) example_bot
     = ([CreateTx, SignTx, SendRaw] @ cadence 2 @ [GetReceipt], ConfirmedSuccess,
        example_bot\<lparr>successful_mints := 1\<rparr>)"
    using confirmation_wait_outcomes[OF s[of ?rc], THEN conjunct2, THEN conjunct2, THEN conjunct1,
        rule_format, of 2 "\<lparr>status = 1\<rparr>"]
    by (simp add: example_world_def no_receipt_def example_bot_def)
  show ?thesis using a b by blast
qed

text \<open>
  C4. For a run of the loop against any script: the loop has returned exactly when the
  success counter has reached the target, and until then every world of the script is
  met by an attempt (the first one numbered one above the attempts so far); a run that
  returned after some attempt ended on a \<open>ConfirmedSuccess\<close>, and from a counter not
  above the target it saw exactly the missing number of successes (3 for target 3 and a
  fresh bot); each iteration slept the retry delay if its attempt did not succeed and
  did not sleep if it did; and below the target the loop makes \<open>n\<close> unsuccessful
  attempts for every \<open>n\<close> and every value of \<open>max_retries\<close>, and is still running.
\<close>

theorem mint_loop_until_target:
  assumes run: "run_continuous_mint target ws b = (its, st, fin)"
  shows
    "(st = Returned \<longleftrightarrow> target \<le> successful_mints fin)
     \<and> (st = StillRunning \<longrightarrow> length its = length ws)
     \<and> (successful_mints b < target \<and> ws \<noteq> [] \<longrightarrow>
           its \<noteq> [] \<and> attempt_no (hd its) = total_attempts b + 1)
     \<and> (its \<noteq> [] \<and> st = Returned \<longrightarrow> result (last its) = ConfirmedSuccess)
     \<and> successful_mints fin = successful_mints b + int (successes its)
     \<and> (successful_mints b \<le> target \<and> st = Returned \<longrightarrow>
           int (successes its) = target - successful_mints b)
     \<and> total_attempts fin = total_attempts b + int (length its)
     \<and> (\<forall>it \<in> set its.
           slept it = (if result it = ConfirmedSuccess then None else Some (retry_delay b)))
     \<and> (\<forall>n r w. \<not> check_mint_status (isPublicMintActive w) (mintActive w)
                  \<and> successful_mints b < target \<longrightarrow>
           (case run_continuous_mint target (replicate n w) (b\<lparr>max_retries := r\<rparr>) of
              (its', st', fin') \<Rightarrow>
                length its' = n \<and> st' = StillRunning
                \<and> total_attempts fin' = total_attempts b + int n))"
proof -
  note inv = run_invariants[OF run]
  have c1: "st = Returned \<longleftrightarrow> target \<le> successful_mints fin" using inv by blast
  have c2: "st = StillRunning \<longrightarrow> length its = length ws" using inv by blast
  have c3: "its \<noteq> [] \<and> attempt_no (hd its) = total_attempts b + 1"
    if pre: "successful_mints b < target \<and> ws \<noteq> []"
  proof -
    obtain w ws' where ws: "ws = w # ws'" using pre by (cases ws) auto
    show ?thesis using run_first[of b target w ws' its st fin] pre run ws by simp
  qed
  have c4: "its \<noteq> [] \<and> st = Returned \<longrightarrow> result (last its) = ConfirmedSuccess"
    using run_last[OF run] by blast
  have c5: "successful_mints fin = successful_mints b + int (successes its)" using inv by blast
  have c6: "successful_mints b \<le> target \<and> st = Returned \<longrightarrow>
           int (successes its) = target - successful_mints b"
    using inv by auto
  have c7: "total_attempts fin = total_attempts b + int (length its)" using inv by blast
  have c8: "\<forall>it \<in> set its.
           slept it = (if result it = ConfirmedSuccess then None else Some (retry_delay b))"
    using inv by blast
  have c9: "(case run_continuous_mint target (replicate n w) (b\<lparr>max_retries := r\<rparr>) of
              (its', st', fin') \<Rightarrow>
                length its' = n \<and> st' = StillRunning
                \<and> total_attempts fin' = total_attempts b + int n)"
    if "\<not> check_mint_status (isPublicMintActive w) (mintActive w) \<and> successful_mints b < target"
    for n r w
    using run_not_ready[of w "b\<lparr>max_retries := r\<rparr>" target n] that by simp
  have c3': "successful_mints b < target \<and> ws \<noteq> [] \<longrightarrow>
           its \<noteq> [] \<and> attempt_no (hd its) = total_attempts b + 1"
    using c3 by (rule impI)
  have c9': "\<forall>n r w. \<not> check_mint_status (isPublicMintActive w) (mintActive w)
                  \<and> successful_mints b < target \<longrightarrow>
           (case run_continuous_mint target (replicate n w) (b\<lparr>max_retries := r\<rparr>) of
              (its', st', fin') \<Rightarrow>
                length its' = n \<and> st' = StillRunning
                \<and> total_attempts fin' = total_attempts b + int n)"
    using c9 by (intro allI impI)
  show ?thesis
    by (intro conjI) (fact c1 c2 c3' c4 c5 c6 c7 c8 c9')+
qed

theorem mint_loop_until_target_witness:
  "(case run_continuous_mint 3 example_script example_bot of
      (its, st, fin) \<Rightarrow>
        st = Returned \<and> length its = 5 \<and> successes its = 3
        \<and> map slept its = [Some (1 / 2), None, None, Some (1 / 2), None]
        \<and> result (last its) = ConfirmedSuccess
        \<and> successful_mints fin = 3 \<and> total_attempts fin = 5)
   \<and> (case run_continuous_mint 3 (replicate 60 closed_world) (example_bot\<lparr>max_retries := 50\<rparr>) of
        (its, st, fin) \<Rightarrow> length its = 60 \<and> st = StillRunning \<and> total_attempts fin = 60)"
proof -
  obtain its st fin where r: "run_continuous_mint 3 example_script example_bot = (its, st, fin)"
    by (cases "run_continuous_mint 3 example_script example_bot") auto
  have "fst (snd (run_continuous_mint 3 example_script example_bot)) = Returned"
    by code_simp
  then have st: "st = Returned" using r by simp
  have "map result (fst (run_continuous_mint 3 example_script example_bot))
      = [ConfirmedFailure, ConfirmedSuccess, ConfirmedSuccess, NotReady, ConfirmedSuccess]"
    by code_simp
  then have res: "map result its
      = [ConfirmedFailure, ConfirmedSuccess, ConfirmedSuccess, NotReady, ConfirmedSuccess]"
    using r by simp
  have len: "length its = 5" using arg_cong[OF res, of length] by simp
  obtain i1 i2 i3 i4 i5 where its: "its = [i1, i2, i3, i4, i5]"
    using len by (auto simp: length_Suc_conv numeral_eq_Suc)
  have rs: "result i1 = ConfirmedFailure" "result i2 = ConfirmedSuccess" "result i3 = ConfirmedSuccess"
    "result i4 = NotReady" "result i5 = ConfirmedSuccess"
    using res its by simp_all
  have b0: "successful_mints example_bot = 0" "total_attempts example_bot = 0"
    "retry_delay example_bot = 1 / 2"
    by (simp_all add: example_bot_def)
  note t = mint_loop_until_target[OF r]
  have first: "st = Returned \<and> length its = 5 \<and> successes its = 3
        \<and> map slept its = [Some (1 / 2), None, None, Some (1 / 2), None]
        \<and> result (last its) = ConfirmedSuccess
        \<and> successful_mints fin = 3 \<and> total_attempts fin = 5"
    using t st len rs b0 unfolding its by (simp add: successes_def)
  have closed: "\<not> check_mint_status (isPublicMintActive closed_world) (mintActive closed_world)"
    by (simp add: closed_world_def example_world_def check_mint_status_def)
  have second: "(case run_continuous_mint 3 (replicate 60 closed_world) (example_bot\<lparr>max_retries := 50\<rparr>) of
        (its, st, fin) \<Rightarrow> length its = 60 \<and> st = StillRunning \<and> total_attempts fin = 60)"
    using t[THEN conjunct2, THEN conjunct2, THEN conjunct2, THEN conjunct2, THEN conjunct2,
            THEN conjunct2, THEN conjunct2, THEN conjunct2, rule_format, of closed_world 60 50]
      closed b0 by simp
  show ?thesis using first second r by simp
qed

text \<open>
  C6. An attempt raises the success counter by one if and only if it ends in
  \<open>ConfirmedSuccess\<close>; ending anywhere else it leaves the bot as it was, and it never
  touches the attempt counter. After any number of iterations of the loop the success
  counter is at most the attempt counter, provided it was so before: the first has
  grown by the successes, the second by the iterations.
\<close>

theorem success_counter:
  "(attempt_mint w b = (evs, out, b') \<longrightarrow>
      (successful_mints b' = successful_mints b + 1 \<longleftrightarrow> out = ConfirmedSuccess)
      \<and> (out \<noteq> ConfirmedSuccess \<longrightarrow> b' = b)
      \<and> total_attempts b' = total_attempts b)
   \<and> (successful_mints b \<le> total_attempts b \<longrightarrow>
        (\<forall>n. case run_continuous_mint target (take n ws) b of
               (its, st, fin) \<Rightarrow>
                 successful_mints fin \<le> total_attempts fin
                 \<and> successful_mints fin = successful_mints b + int (successes its)
                 \<and> total_attempts fin = total_attempts b + int (length its)))"
proof -
  have a: "(successful_mints b' = successful_mints b + 1 \<longleftrightarrow> out = ConfirmedSuccess)
      \<and> (out \<noteq> ConfirmedSuccess \<longrightarrow> b' = b)
      \<and> total_attempts b' = total_attempts b"
    if "attempt_mint w b = (evs, out, b')"
    using attempt_effect[OF that] by (simp split: if_splits)
  have l: "(case run_continuous_mint target (take n ws) b of
               (its, st, fin) \<Rightarrow>
                 successful_mints fin \<le> total_attempts fin
                 \<and> successful_mints fin = successful_mints b + int (successes its)
                 \<and> total_attempts fin = total_attempts b + int (length its))"
    if le: "successful_mints b \<le> total_attempts b" for n
  proof -
    obtain its st fin where r: "run_continuous_mint target (take n ws) b = (its, st, fin)"
      by (cases "run_continuous_mint target (take n ws) b") auto
    show ?thesis
      using run_invariants[OF r] successes_le[of its] le r by simp
  qed
  have a': "attempt_mint w b = (evs, out, b') \<longrightarrow>
      (successful_mints b' = successful_mints b + 1 \<longleftrightarrow> out = ConfirmedSuccess)
      \<and> (out \<noteq> ConfirmedSuccess \<longrightarrow> b' = b)
      \<and> total_attempts b' = total_attempts b"
    using a by (rule impI)
  have l': "successful_mints b \<le> total_attempts b \<longrightarrow>
        (\<forall>n. case run_continuous_mint target (take n ws) b of
               (its, st, fin) \<Rightarrow>
                 successful_mints fin \<le> total_attempts fin
                 \<and> successful_mints fin = successful_mints b + int (successes its)
                 \<and> total_attempts fin = total_attempts b + int (length its))"
    using l by (intro impI allI)
  show ?thesis by (rule conjI[OF a' l'])
qed

theorem success_counter_witness:
  "(case attempt_mint minted_world example_bot of
      (evs, out, b') \<Rightarrow> out = ConfirmedSuccess \<and> successful_mints b' = 1 \<and> total_attempts b' = 0)
   \<and> (case attempt_mint reverted_world example_bot of
        (evs, out, b') \<Rightarrow> out = ConfirmedFailure \<and> b' = example_bot)
   \<and> (case run_continuous_mint 3 (take 4 example_script) example_bot of
        (its, st, fin) \<Rightarrow>
          successful_mints fin \<le> total_attempts fin
          \<and> successful_mints fin = int (successes its)
          \<and> total_attempts fin = int (length its))"
proof -
  have b0: "successful_mints example_bot = 0" "total_attempts example_bot = 0"
    by (simp_all add: example_bot_def)
  obtain evs out b' where a1: "attempt_mint minted_world example_bot = (evs, out, b')"
    by (cases "attempt_mint minted_world example_bot") auto
  have "fst (snd (attempt_mint minted_world example_bot)) = ConfirmedSuccess"
    by code_simp
  then have o1: "out = ConfirmedSuccess" using a1 by simp
  have p1: "out = ConfirmedSuccess \<and> successful_mints b' = 1 \<and> total_attempts b' = 0"
    using success_counter[of minted_world example_bot evs out b' 3 example_script] a1 o1 b0
    by simp
  obtain evs2 out2 b2 where a2: "attempt_mint reverted_world example_bot = (evs2, out2, b2)"
    by (cases "attempt_mint reverted_world example_bot") auto
  have "fst (snd (attempt_mint reverted_world example_bot)) = ConfirmedFailure"
    by code_simp
  then have o2: "out2 = ConfirmedFailure" using a2 by simp
  have p2: "out2 = ConfirmedFailure \<and> b2 = example_bot"
    using success_counter[of reverted_world example_bot evs2 out2 b2 3 example_script] a2 o2
    by simp
  have p3: "(case run_continuous_mint 3 (take 4 example_script) example_bot of
        (its, st, fin) \<Rightarrow>
          successful_mints fin \<le> total_attempts fin
          \<and> successful_mints fin = int (successes its)
          \<and> total_attempts fin = int (length its))"
    using success_counter[of minted_world example_bot evs out b' 3 example_script,
        THEN conjunct2, rule_format, of 4] b0
    by (simp split: prod.splits)
  show ?thesis using p1 p2 p3 a1 a2 by simp
qed

text \<open>
  C1. \<open>get_current_gas_price\<close> never returns the dynamic-fee pair: for a base fee other
  than 0, \<open>from_wei\<close> returns a \<open>Decimal\<close>, the product \<open>base_fee_gwei * 0.1\<close> of a
  \<open>Decimal\<close> and a \<open>float\<close> raises \<open>TypeError\<close>, and the bare \<open>except\<close> sends the function
  down the legacy path. With a base fee of 20 gwei, a priority ceiling of 2 and a gas
  ceiling of 100 the result is the legacy price capped at 100 gwei, not the pair
  (22 gwei, 2 gwei).
\<close>

theorem dynamic_fee_unreachable:
  "get_current_gas_price self w \<noteq> Inr (MaxFee f p)
   \<and> (baseFeePerGas w = Inr (Some 20000000000) \<and> max_priority_fee self = 2
        \<and> max_gas_price self = 100 \<and> gas_price w = Inr observed \<longrightarrow>
        get_current_gas_price self w = Inr (GasPrice (min observed 100000000000)))"
  by (auto simp: gas_price_legacy to_wei_int MAX_WEI_def split: sum.splits)

theorem dynamic_fee_unreachable_witness:
  "get_current_gas_price example_bot (example_world erc721_mint (\<lambda>i. Inr None))
     = Inr (GasPrice 100000000000)"
  using dynamic_fee_unreachable[of example_bot "example_world erc721_mint (\<lambda>i. Inr None)" 0 0 150000000000]
  by (simp add: example_bot_def example_world_def)

text \<open>
  C8, as stated, fails: the legacy path is outside the handler, so when the gas price
  cannot be fetched either, the function raises.
\<close>

theorem gas_price_raises: "get_current_gas_price example_bot offline_world = Inl ConnectionError"
  by (simp add: legacy_when_base_fee_fails offline_world_def example_world_def)

text \<open>
  C8, amended. When fetching the base fee fails, the function takes the legacy path,
  which is outside the handler: with an observed gas price and a ceiling that \<open>to_wei\<close>
  accepts (0 up to \<open>MAX_WEI\<close> in wei) it returns the smaller of the observed price and
  the ceiling in wei, 100 gwei for 150 gwei observed under a ceiling of 100; it raises
  what the gas price query raises, and \<open>ValueError\<close> for a ceiling outside that range.
  When the mint is active and the nonce query has answered, an exception of the gas
  price computation reaches the handler of \<open>attempt_mint\<close>: the attempt returns \<open>False\<close>
  and leaves the bot unchanged.
\<close>

theorem legacy_fallback:
  assumes base: "baseFeePerGas w = Inl e"
  shows
    "(gas_price w = Inr observed \<and> 0 \<le> max_gas_price self
        \<and> max_gas_price self * 10 ^ 9 \<le> MAX_WEI \<longrightarrow>
        get_current_gas_price self w
          = Inr (GasPrice (min observed (max_gas_price self * 10 ^ 9))))
     \<and> (gas_price w = Inr 150000000000 \<and> max_gas_price self = 100 \<longrightarrow>
        get_current_gas_price self w = Inr (GasPrice 100000000000))
     \<and> (gas_price w = Inl e' \<longrightarrow> get_current_gas_price self w = Inl e')
     \<and> (gas_price w = Inr observed
        \<and> (max_gas_price self < 0 \<or> MAX_WEI < max_gas_price self * 10 ^ 9) \<longrightarrow>
        get_current_gas_price self w = Inl ValueError)
     \<and> (get_current_gas_price self w = Inl err
        \<and> check_mint_status (isPublicMintActive w) (mintActive w)
        \<and> get_transaction_count w (public_key self) = Inr n \<longrightarrow>
        attempt_mint w self = ([CreateTx], CaughtException err, self)
        \<and> \<not> returned (CaughtException err))"
proof -
  have old: "(gas_price w = Inr observed \<and> 0 \<le> max_gas_price self
        \<and> max_gas_price self * 10 ^ 9 \<le> MAX_WEI \<longrightarrow>
        get_current_gas_price self w
          = Inr (GasPrice (min observed (max_gas_price self * 10 ^ 9))))
     \<and> (gas_price w = Inr 150000000000 \<and> max_gas_price self = 100 \<longrightarrow>
        get_current_gas_price self w = Inr (GasPrice 100000000000))
     \<and> (gas_price w = Inl e' \<longrightarrow> get_current_gas_price self w = Inl e')
     \<and> (gas_price w = Inr observed
        \<and> (max_gas_price self < 0 \<or> MAX_WEI < max_gas_price self * 10 ^ 9) \<longrightarrow>
        get_current_gas_price self w = Inl ValueError)"
    by (auto simp: legacy_when_base_fee_fails[OF base] to_wei_int MAX_WEI_def)
  have new: "get_current_gas_price self w = Inl err
        \<and> check_mint_status (isPublicMintActive w) (mintActive w)
        \<and> get_transaction_count w (public_key self) = Inr n \<longrightarrow>
        attempt_mint w self = ([CreateTx], CaughtException err, self)
        \<and> \<not> returned (CaughtException err)"
    using attempt_when_gas_price_raises[of self w err n] by simp
  show ?thesis using old new by blast
qed

theorem legacy_fallback_witness:
  "get_current_gas_price example_bot
     ((example_world erc721_mint (\<lambda>i. Inr None))\<lparr>baseFeePerGas := Inl ConnectionError\<rparr>)
     = Inr (GasPrice 100000000000)
   \<and> attempt_mint offline_world example_bot
     = ([CreateTx], CaughtException ConnectionError, example_bot)"
proof -
  have a: "get_current_gas_price example_bot
     ((example_world erc721_mint (\<lambda>i. Inr None))\<lparr>baseFeePerGas := Inl ConnectionError\<rparr>)
     = Inr (GasPrice 100000000000)"
    using legacy_fallback[of "(example_world erc721_mint (\<lambda>i. Inr None))\<lparr>baseFeePerGas := Inl ConnectionError\<rparr>"
      ConnectionError 150000000000 example_bot]
    by (simp add: example_bot_def example_world_def MAX_WEI_def)
  have base: "baseFeePerGas offline_world = Inl ConnectionError"
    by (simp add: offline_world_def)
  have gp: "gas_price offline_world = Inl ConnectionError"
    by (simp add: offline_world_def)
  note t = legacy_fallback[OF base, of 0 example_bot ConnectionError ConnectionError 7]
  have raised: "get_current_gas_price example_bot offline_world = Inl ConnectionError"
    using t gp by simp
  have b: "attempt_mint offline_world example_bot
     = ([CreateTx], CaughtException ConnectionError, example_bot)"
    using t raised
    by (simp add: offline_world_def example_world_def check_mint_status_def)
  show ?thesis using a b by (rule conjI)
qed

text \<open>
  C3. When the key of the selected wallet does not decrypt, nothing propagates:
  \<open>get_wallet_private_key\<close> returns \<open>None\<close>, the wallet part of the constructor
  completes with the key \<open>None\<close>, and a bot so constructed starts with both counters at
  0 and a key of \<open>None\<close>. Its loop counts an attempt at once for any positive target, and
  an attempt for which the mint is active and the builder returns a transaction goes on
  to sign it with the key \<open>None\<close>; the exception of the signing is caught inside the
  attempt, before anything is sent.
\<close>

theorem decryption_failure_swallowed:
  assumes ne: "wname \<noteq> []"
    and wal: "get_wallet dir wname = Some wallet"
    and dec: "decrypt_private_key manager (private_key_encrypted wallet) = Inl e"
  shows
    "get_wallet_private_key manager dir wname = None
     \<and> load_wallet env manager dir (Some wname) = Inr (None, Some (address wallet), wname)
     \<and> (\<forall>self. init env manager dir net (Some wname) = Inr self \<longrightarrow>
           private_key self = None \<and> total_attempts self = 0 \<and> successful_mints self = 0
           \<and> (\<forall>target w ws. 0 < target \<longrightarrow>
                 (case run_continuous_mint target (w # ws) self of
                    (its, st, fin) \<Rightarrow> its \<noteq> [] \<and> 1 \<le> total_attempts fin))
           \<and> (\<forall>w t e'. check_mint_status (isPublicMintActive w) (mintActive w)
                   \<and> create_mint_transaction self w = Inr (Some t)
                   \<and> sign_transaction w t None = Inl e' \<longrightarrow>
                 attempt_mint w self = ([CreateTx, SignTx], CaughtException e', self)))"
proof -
  have k: "get_wallet_private_key manager dir wname = None"
    using wal dec by (simp add: get_wallet_private_key_def)
  have l: "load_wallet env manager dir (Some wname) = Inr (None, Some (address wallet), wname)"
    using ne wal k by (simp add: load_wallet_def)
  have i: "private_key self = None \<and> total_attempts self = 0 \<and> successful_mints self = 0
           \<and> (\<forall>target w ws. 0 < target \<longrightarrow>
                 (case run_continuous_mint target (w # ws) self of
                    (its, st, fin) \<Rightarrow> its \<noteq> [] \<and> 1 \<le> total_attempts fin))
           \<and> (\<forall>w t e'. check_mint_status (isPublicMintActive w) (mintActive w)
                   \<and> create_mint_transaction self w = Inr (Some t)
                   \<and> sign_transaction w t None = Inl e' \<longrightarrow>
                 attempt_mint w self = ([CreateTx, SignTx], CaughtException e', self))"
    if ini: "init env manager dir net (Some wname) = Inr self" for self
  proof -
    note f = init_fields[OF ini l]
    have r: "(case run_continuous_mint target (w # ws) self of
                    (its, st, fin) \<Rightarrow> its \<noteq> [] \<and> 1 \<le> total_attempts fin)"
      if pos: "0 < target" for target w ws
    proof -
      obtain its st fin where run: "run_continuous_mint target (w # ws) self = (its, st, fin)"
        by (cases "run_continuous_mint target (w # ws) self") auto
      have below: "successful_mints self < target" using f pos by simp
      have "its \<noteq> []" using run_first[OF below run] by simp
      moreover have "total_attempts fin = total_attempts self + int (length its)"
        using run_invariants[OF run] by blast
      ultimately show ?thesis using run f by (cases its) auto
    qed
    have a: "attempt_mint w self = ([CreateTx, SignTx], CaughtException e', self)"
      if "check_mint_status (isPublicMintActive w) (mintActive w)
                   \<and> create_mint_transaction self w = Inr (Some t)
                   \<and> sign_transaction w t None = Inl e'" for w t e'
      using attempt_sign_fails[of w self t e'] that f by simp
    show ?thesis using f r a by blast
  qed
  show ?thesis using k l i by blast
qed

theorem decryption_failure_swallowed_witness:
  "(case init example_environ wrong_key_manager example_dir ''ethereum'' (Some ''main'') of
      Inl e \<Rightarrow> False
    | Inr self \<Rightarrow>
        private_key self = None
        \<and> (case run_continuous_mint 1 [minted_world, minted_world] self of
             (its, st, fin) \<Rightarrow>
               map result its = [CaughtException TypeError, CaughtException TypeError]
               \<and> map events its = [[CreateTx, SignTx], [CreateTx, SignTx]]
               \<and> st = StillRunning \<and> total_attempts fin = 2 \<and> successful_mints fin = 0))"
proof -
  have w: "get_wallet example_dir ''main'' = Some (the (example_dir ''main''))"
    by (simp add: get_wallet_def example_dir_def)
  have d: "decrypt_private_key wrong_key_manager (private_key_encrypted (the (example_dir ''main'')))
      = Inl InvalidToken"
    by (simp add: decrypt_private_key_def wrong_key_manager_def example_dir_def encode_char_def)
  note t = decryption_failure_swallowed[of "''main''" example_dir _ wrong_key_manager InvalidToken
      example_environ "''ethereum''", OF _ w d]
  have l: "load_wallet example_environ wrong_key_manager example_dir (Some ''main'')
      = Inr (None, Some ''0xA1'', ''main'')"
    using t by (simp add: example_dir_def)
  obtain self where i: "init example_environ wrong_key_manager example_dir ''ethereum'' (Some ''main'') = Inr self"
    unfolding init_def l
    by (simp add: example_environ_def setup_network_config_def load_contract_def lower_def lower_char_def)
  have k: "private_key self = None" using t i by simp
  have cfg: "self = example_bot\<lparr>private_key := None, wallet_name := ''main''\<rparr>"
    using i unfolding init_def l
    by (simp add: example_environ_def setup_network_config_def load_contract_def lower_def
        lower_char_def example_bot_def)
  have run: "run_continuous_mint 1 [minted_world, minted_world]
        (example_bot\<lparr>private_key := None, wallet_name := ''main''\<rparr>)
      = ([\<lparr>attempt_no = 1, events = [CreateTx, SignTx], result = CaughtException TypeError,
            slept = Some (1 / 2)\<rparr>,
          \<lparr>attempt_no = 2, events = [CreateTx, SignTx], result = CaughtException TypeError,
            slept = Some (1 / 2)\<rparr>],
         StillRunning,
         example_bot\<lparr>private_key := None, wallet_name := ''main'', total_attempts := 2\<rparr>)"
    by code_simp
  show ?thesis using i k run unfolding cfg by (simp add: example_bot_def)
qed

text \<open>
  C2, amended. The builder tries two entry points and no other. On the prepared
  transaction it returns what \<open>build_transaction\<close> returns for \<open>mint()\<close> if that call
  returns, else what it returns for \<open>publicMint()\<close> if that call returns, and \<open>None\<close> if
  both raise, whatever they raise; the result does not depend on what any other call
  would build. It returns \<open>None\<close> exactly when the preparation succeeded and both calls
  raised. An exception of the preparation leaves the function as that exception, not
  as \<open>None\<close>: the nonce query, the gas price computation, the conversion of the mint
  price and the chain id query, in this order. A gas estimate that raises does not:
  the gas limit is then 200000.
\<close>

theorem entry_point_probe:
  "(prepare_transaction self w = Inr t \<longrightarrow>
      (build_transaction w (Call ''mint'' []) t = Inr built \<longrightarrow>
         create_mint_transaction self w = Inr (Some built))
      \<and> (build_transaction w (Call ''mint'' []) t = Inl e1
           \<and> build_transaction w (Call ''publicMint'' []) t = Inr built \<longrightarrow>
         create_mint_transaction self w = Inr (Some built))
      \<and> (build_transaction w (Call ''mint'' []) t = Inl e1
           \<and> build_transaction w (Call ''publicMint'' []) t = Inl e2 \<longrightarrow>
         create_mint_transaction self w = Inr None)
      \<and> (\<forall>f. f (Call ''mint'' []) t = build_transaction w (Call ''mint'' []) t
              \<and> f (Call ''publicMint'' []) t = build_transaction w (Call ''publicMint'' []) t \<longrightarrow>
            create_mint_transaction self (w\<lparr>build_transaction := f\<rparr>)
              = create_mint_transaction self w))
   \<and> (create_mint_transaction self w = Inr None \<longleftrightarrow>
        (\<exists>p x1 x2. prepare_transaction self w = Inr p
                   \<and> build_transaction w (Call ''mint'' []) p = Inl x1
                   \<and> build_transaction w (Call ''publicMint'' []) p = Inl x2))
   \<and> (prepare_transaction self w = Inl e \<longrightarrow> create_mint_transaction self w = Inl e)
   \<and> (get_transaction_count w (public_key self) = Inl e \<longrightarrow>
        create_mint_transaction self w = Inl e)
   \<and> (get_transaction_count w (public_key self) = Inr n
        \<and> get_current_gas_price self w = Inl e \<longrightarrow>
        create_mint_transaction self w = Inl e)
   \<and> (get_transaction_count w (public_key self) = Inr n
        \<and> get_current_gas_price self w = Inr g
        \<and> to_wei (PyFloat (mint_price self)) ether = Inl e \<longrightarrow>
        create_mint_transaction self w = Inl e)
   \<and> (get_transaction_count w (public_key self) = Inr n
        \<and> get_current_gas_price self w = Inr g
        \<and> to_wei (PyFloat (mint_price self)) ether = Inr v
        \<and> chain_id w = Inl e \<longrightarrow>
        create_mint_transaction self w = Inl e)
   \<and> (get_transaction_count w (public_key self) = Inr n
        \<and> get_current_gas_price self w = Inr g
        \<and> to_wei (PyFloat (mint_price self)) ether = Inr v
        \<and> chain_id w = Inr c \<longrightarrow>
        (\<exists>p. prepare_transaction self w = Inr p
           \<and> gas p = Some (case estimate_gas w (p\<lparr>gas := None\<rparr>) of
                             Inr est \<Rightarrow> buffered w est
                           | Inl x \<Rightarrow> 200000)))"
proof -
  have a: "prepare_transaction self w = Inr t \<longrightarrow>
      (build_transaction w (Call ''mint'' []) t = Inr built \<longrightarrow>
         create_mint_transaction self w = Inr (Some built))
      \<and> (build_transaction w (Call ''mint'' []) t = Inl e1
           \<and> build_transaction w (Call ''publicMint'' []) t = Inr built \<longrightarrow>
         create_mint_transaction self w = Inr (Some built))
      \<and> (build_transaction w (Call ''mint'' []) t = Inl e1
           \<and> build_transaction w (Call ''publicMint'' []) t = Inl e2 \<longrightarrow>
         create_mint_transaction self w = Inr None)
      \<and> (\<forall>f. f (Call ''mint'' []) t = build_transaction w (Call ''mint'' []) t
              \<and> f (Call ''publicMint'' []) t = build_transaction w (Call ''publicMint'' []) t \<longrightarrow>
            create_mint_transaction self (w\<lparr>build_transaction := f\<rparr>)
              = create_mint_transaction self w)"
    by (simp add: create_mint_transaction_def prepare_ignores_build split: sum.splits)
  have b: "create_mint_transaction self w = Inr None \<longleftrightarrow>
        (\<exists>p x1 x2. prepare_transaction self w = Inr p
                   \<and> build_transaction w (Call ''mint'' []) p = Inl x1
                   \<and> build_transaction w (Call ''publicMint'' []) p = Inl x2)"
    by (auto simp: create_mint_transaction_def split: sum.splits)
  have c: "prepare_transaction self w = Inl e \<longrightarrow> create_mint_transaction self w = Inl e"
    by (simp add: create_when_prepare_fails)
  have d1: "get_transaction_count w (public_key self) = Inl e \<longrightarrow>
        create_mint_transaction self w = Inl e"
    by (simp add: create_mint_transaction_def prepare_result)
  have d2: "get_transaction_count w (public_key self) = Inr n
        \<and> get_current_gas_price self w = Inl e \<longrightarrow>
        create_mint_transaction self w = Inl e"
    by (simp add: create_mint_transaction_def prepare_result)
  have d3: "get_transaction_count w (public_key self) = Inr n
        \<and> get_current_gas_price self w = Inr g
        \<and> to_wei (PyFloat (mint_price self)) ether = Inl e \<longrightarrow>
        create_mint_transaction self w = Inl e"
    by (simp add: create_mint_transaction_def prepare_result)
  have d4: "get_transaction_count w (public_key self) = Inr n
        \<and> get_current_gas_price self w = Inr g
        \<and> to_wei (PyFloat (mint_price self)) ether = Inr v
        \<and> chain_id w = Inl e \<longrightarrow>
        create_mint_transaction self w = Inl e"
    by (simp add: create_mint_transaction_def prepare_result)
  have d5: "get_transaction_count w (public_key self) = Inr n
        \<and> get_current_gas_price self w = Inr g
        \<and> to_wei (PyFloat (mint_price self)) ether = Inr v
        \<and> chain_id w = Inr c \<longrightarrow>
        (\<exists>p. prepare_transaction self w = Inr p
           \<and> gas p = Some (case estimate_gas w (p\<lparr>gas := None\<rparr>) of
                             Inr est \<Rightarrow> buffered w est
                           | Inl x \<Rightarrow> 200000))"
    by (simp add: prepare_result)
  show ?thesis by (intro conjI) (fact a b c d1 d2 d3 d4 d5)+
qed

theorem entry_point_probe_witness:
  "create_mint_transaction example_bot (example_world erc721_mint (\<lambda>i. Inr None))
     = Inr (Some \<lparr> tx_from = ''0xA1'', tx_to = ''0xC0'', tx_value = 50000000000000000, nonce = 7,
           chainId = 1, fee = GasPrice 100000000000, gas = Some 120000,
           data = Some (Call ''mint'' []) \<rparr>)
   \<and> create_mint_transaction example_bot (example_world [(''publicMint'', 0)] (\<lambda>i. Inr None))
     = Inr (Some \<lparr> tx_from = ''0xA1'', tx_to = ''0xC0'', tx_value = 50000000000000000, nonce = 7,
           chainId = 1, fee = GasPrice 100000000000, gas = Some 120000,
           data = Some (Call ''publicMint'' []) \<rparr>)
   \<and> create_mint_transaction example_bot (example_world [] (\<lambda>i. Inr None)) = Inr None
   \<and> create_mint_transaction example_bot refusing_world = Inr None
   \<and> create_mint_transaction example_bot
         ((example_world erc721_mint (\<lambda>i. Inr None))
            \<lparr>get_transaction_count := (\<lambda>account. Inl ConnectionError)\<rparr>)
     = Inl ConnectionError
   \<and> create_mint_transaction (example_bot\<lparr>mint_price := - 1\<rparr>)
         (example_world erc721_mint (\<lambda>i. Inr None))
     = Inl ValueError"
proof -
  let ?t = "\<lparr> tx_from = ''0xA1'', tx_to = ''0xC0'', tx_value = 50000000000000000, nonce = 7,
           chainId = 1, fee = GasPrice 100000000000, gas = Some 120000, data = None \<rparr>"
  have a: "create_mint_transaction example_bot (example_world erc721_mint (\<lambda>i. Inr None))
     = Inr (Some (?t\<lparr>data := Some (Call ''mint'' [])\<rparr>))"
    using entry_point_probe[of example_bot "example_world erc721_mint (\<lambda>i. Inr None)" ?t,
        THEN conjunct1]
      ex_prepare[of erc721_mint "\<lambda>i. Inr None"]
    by (simp add: example_world_def erc721_mint_def)
  have b: "create_mint_transaction example_bot (example_world [(''publicMint'', 0)] (\<lambda>i. Inr None))
     = Inr (Some (?t\<lparr>data := Some (Call ''publicMint'' [])\<rparr>))"
    using entry_point_probe[of example_bot "example_world [(''publicMint'', 0)] (\<lambda>i. Inr None)" ?t
          _ MismatchedABI, THEN conjunct1]
      ex_prepare[of "[(''publicMint'', 0)]" "\<lambda>i. Inr None"]
    by (simp add: example_world_def)
  have c: "create_mint_transaction example_bot (example_world [] (\<lambda>i. Inr None)) = Inr None"
    using entry_point_probe[of example_bot "example_world [] (\<lambda>i. Inr None)" ?t
          _ MismatchedABI MismatchedABI, THEN conjunct1]
      ex_prepare[of "[]" "\<lambda>i. Inr None"]
    by (simp add: example_world_def)
  have p: "prepare_transaction example_bot refusing_world = Inr ?t"
    unfolding refusing_world_def prepare_ignores_build by (rule ex_prepare)
  have d: "create_mint_transaction example_bot refusing_world = Inr None"
    using entry_point_probe[of example_bot refusing_world ?t _ ValueError ValueError,
        THEN conjunct1] p
    by (simp add: refusing_world_def refusing_build_def)
  have e: "create_mint_transaction example_bot
         ((example_world erc721_mint (\<lambda>i. Inr None))
            \<lparr>get_transaction_count := (\<lambda>account. Inl ConnectionError)\<rparr>)
     = Inl ConnectionError"
    using entry_point_probe[of example_bot "(example_world erc721_mint (\<lambda>i. Inr None))
            \<lparr>get_transaction_count := (\<lambda>account. Inl ConnectionError)\<rparr>" _ _ _ _ ConnectionError,
        THEN conjunct2, THEN conjunct2, THEN conjunct2, THEN conjunct1]
    by simp
  let ?b = "example_bot\<lparr>mint_price := - 1\<rparr>"
  let ?w = "example_world erc721_mint (\<lambda>i. Inr None)"
  have n: "get_transaction_count ?w (public_key ?b) = Inr 7"
    by (simp add: example_world_def)
  have g: "get_current_gas_price ?b ?w = Inr (GasPrice 100000000000)"
    by (simp add: legacy_when_base_fee_fails gas_price_legacy to_wei_int MAX_WEI_def
        example_world_def example_bot_def)
  have m: "to_wei (PyFloat (mint_price ?b)) ether = Inl ValueError"
    by (simp add: to_wei_def ether_def MIN_WEI_def)
  have f: "create_mint_transaction ?b ?w = Inl ValueError"
    using entry_point_probe[of ?b ?w _ _ _ _ ValueError 7 "GasPrice 100000000000",
        THEN conjunct2, THEN conjunct2, THEN conjunct2, THEN conjunct2, THEN conjunct2,
        THEN conjunct1] n g m
    by simp
  show ?thesis using a b c d e f by simp
qed

text \<open>
  C2, as stated, fails: against a contract whose interface has \<open>mintPublic()\<close> and
  \<open>mint(quantity)\<close> only, both of these calls are in the interface and would build, and
  the builder returns \<open>None\<close>. With the builder of the client library, which refuses
  the dictionary, it returns \<open>None\<close> also for the interface of \<open>erc721_mint\<close>, which
  has \<open>mint()\<close>.
\<close>

theorem later_candidates_not_probed:
  "create_mint_transaction example_bot (example_world [(''mintPublic'', 0), (''mint'', 1)] (\<lambda>i. Inr None))
     = Inr None
   \<and> (case prepare_transaction example_bot
              (example_world [(''mintPublic'', 0), (''mint'', 1)] (\<lambda>i. Inr None)) of
        Inl e \<Rightarrow> False
      | Inr t \<Rightarrow>
          build_transaction (example_world [(''mintPublic'', 0), (''mint'', 1)] (\<lambda>i. Inr None))
              (Call ''mintPublic'' []) t
            = Inr (t\<lparr>data := Some (Call ''mintPublic'' [])\<rparr>)
          \<and> build_transaction (example_world [(''mintPublic'', 0), (''mint'', 1)] (\<lambda>i. Inr None))
              (Call ''mint'' [1]) t
            = Inr (t\<lparr>data := Some (Call ''mint'' [1])\<rparr>))
   \<and> in_interface [(''mintPublic'', 0), (''mint'', 1)] (Call ''mintPublic'' [])
   \<and> in_interface [(''mintPublic'', 0), (''mint'', 1)] (Call ''mint'' [1])
   \<and> create_mint_transaction example_bot refusing_world = Inr None
   \<and> in_interface erc721_mint (Call ''mint'' [])"
proof -
  have p: "prepare_transaction example_bot refusing_world
      = Inr \<lparr> tx_from = ''0xA1'', tx_to = ''0xC0'', tx_value = 50000000000000000, nonce = 7,
           chainId = 1, fee = GasPrice 100000000000, gas = Some 120000, data = None \<rparr>"
    unfolding refusing_world_def prepare_ignores_build by (rule ex_prepare)
  have r: "create_mint_transaction example_bot refusing_world = Inr None"
    using p by (simp add: create_mint_transaction_def refusing_world_def refusing_build_def)
  have s: "create_mint_transaction example_bot (example_world [(''mintPublic'', 0), (''mint'', 1)] (\<lambda>i. Inr None))
     = Inr None
   \<and> (case prepare_transaction example_bot
              (example_world [(''mintPublic'', 0), (''mint'', 1)] (\<lambda>i. Inr None)) of
        Inl e \<Rightarrow> False
      | Inr t \<Rightarrow>
          build_transaction (example_world [(''mintPublic'', 0), (''mint'', 1)] (\<lambda>i. Inr None))
              (Call ''mintPublic'' []) t
            = Inr (t\<lparr>data := Some (Call ''mintPublic'' [])\<rparr>)
          \<and> build_transaction (example_world [(''mintPublic'', 0), (''mint'', 1)] (\<lambda>i. Inr None))
              (Call ''mint'' [1]) t
            = Inr (t\<lparr>data := Some (Call ''mint'' [1])\<rparr>))"
    by (simp add: create_mint_transaction_def ex_prepare) (simp add: example_world_def)
  show ?thesis using r s by (simp add: erc721_mint_def)
qed

text \<open>
  C9. After \<open>add_wallet\<close> has written a wallet, any sequence of \<open>update_wallet_stats\<close>
  for it goes through and leaves a record in which \<open>total_mints\<close> is the number of
  updates, \<open>successful_mints\<close> the number of those flagged successful and
  \<open>failed_mints\<close> the number of the others, so that the total is their sum; after at
  least one update \<open>success_rate\<close> is \<open>(successful_mints / total_mints) * 100\<close> in the
  float operations, computed from the counters as they are then; and one more update
  raises \<open>total_mints\<close> by one and exactly one of the other two, by its flag.
\<close>

theorem wallet_counters:
  assumes add: "add_wallet fl from_key manager seed created dir n key pub = Inr (True, dir0)"
  shows
    "\<exists>dir' w.
       update_many fl dir0 n us = Inr dir' \<and> dir' n = Some w
       \<and> total_mints w = Some (int (length us))
       \<and> wallet.successful_mints w = Some (int (wins us))
       \<and> failed_mints w = Some (int (losses us))
       \<and> int (length us) = int (wins us) + int (losses us)
       \<and> (us \<noteq> [] \<longrightarrow>
            success_rate w =
              Some (fmul fl (truediv fl (int (wins us)) (int (length us))) (float_of_int fl 100)))
       \<and> (\<forall>now success spent. \<exists>dir'' w''.
            update_wallet_stats fl now dir' n success spent = Inr (True, dir'')
            \<and> dir'' n = Some w''
            \<and> total_mints w'' = Some (int (length us) + 1)
            \<and> wallet.successful_mints w'' = Some (int (wins us) + (if success then 1 else 0))
            \<and> failed_mints w'' = Some (int (losses us) + (if success then 0 else 1)))"
proof -
  obtain w0 where w0: "dir0 n = Some w0" "total_mints w0 = Some 0"
    "wallet.successful_mints w0 = Some 0" "failed_mints w0 = Some 0"
    using add_wallet_fresh[OF add] by blast
  obtain dir' w where r: "update_many fl dir0 n us = Inr dir'" and d: "dir' n = Some w"
    and t: "total_mints w = Some (int (length us))"
    and s: "wallet.successful_mints w = Some (int (wins us))"
    and f: "failed_mints w = Some (int (losses us))"
    and sr: "us \<noteq> [] \<longrightarrow> success_rate w =
              Some (fmul fl (truediv fl (int (wins us)) (int (length us))) (float_of_int fl 100))"
    using update_many_counts[where dir = dir0 and n = n and w = w0 and t = 0 and s = 0 and f = 0
        and fl = fl and us = us] w0
    by auto
  have sum: "int (length us) = int (wins us) + int (losses us)"
    using wins_losses[of us] by simp
  have step: "\<exists>dir'' w''.
            update_wallet_stats fl now dir' n success spent = Inr (True, dir'')
            \<and> dir'' n = Some w''
            \<and> total_mints w'' = Some (int (length us) + 1)
            \<and> wallet.successful_mints w'' = Some (int (wins us) + (if success then 1 else 0))
            \<and> failed_mints w'' = Some (int (losses us) + (if success then 0 else 1))"
    for now success spent
    using update_step[where dir = dir' and n = n and w = w and t = "int (length us)"
        and s = "int (wins us)" and f = "int (losses us)" and fl = fl and now = now
        and success = success and spent = spent] d t s f
    by (cases success) auto
  show ?thesis
    using r d t s f sr sum step by blast
qed

theorem wallet_counters_witness:
  "(case add_wallet exact_float (\<lambda>key. Inr ''0xA1'') hex_manager 0 ''2024-01-01T00:00:00''
          Map.empty ''main'' [0x61, 0x62] None of
      Inr (True, dir0) \<Rightarrow>
        (case update_many exact_float dir0 ''main'' example_updates of
           Inr dir' \<Rightarrow>
             (case dir' ''main'' of
                Some w \<Rightarrow>
                  total_mints w = Some 3 \<and> wallet.successful_mints w = Some 2
                  \<and> failed_mints w = Some 1 \<and> success_rate w = Some (200 / 3)
              | None \<Rightarrow> False)
         | Inl e \<Rightarrow> False)
    | _ \<Rightarrow> False)"
proof -
  obtain dir0 where a: "add_wallet exact_float (\<lambda>key. Inr ''0xA1'') hex_manager 0
      ''2024-01-01T00:00:00'' Map.empty ''main'' [0x61, 0x62] None = Inr (True, dir0)"
    by (simp add: add_wallet_def encrypt_private_key_def hex_manager_def encode_char_def prepend_def)
  have c: "wins example_updates = 2" "losses example_updates = 1" "length example_updates = 3"
    "example_updates \<noteq> []"
    by (simp_all add: wins_def losses_def example_updates_def)
  obtain dir' w where "update_many exact_float dir0 ''main'' example_updates = Inr dir'"
    "dir' ''main'' = Some w" "total_mints w = Some 3" "wallet.successful_mints w = Some 2"
    "failed_mints w = Some 1" "success_rate w = Some (200 / 3)"
    using wallet_counters[OF a, of example_updates] c
    by (auto simp: exact_float_def)
  then show ?thesis using a by simp
qed

text \<open>
  C10, as stated, fails: a \<open>str\<close> may hold a lone surrogate, which \<open>private_key.encode()\<close>
  refuses, so the encryption raises before the cipher is reached.
\<close>

theorem surrogate_key_raises: "round_trip hex_manager 0 [0xD800] = Inl UnicodeEncodeError"
  by (simp add: round_trip_def encrypt_private_key_def encode_char_def)

text \<open>
  C10, amended. For a key store whose cipher keeps the contract of Fernet (a token is
  ASCII, and decrypting the encryption of a byte string gives the byte string back)
  and for every private key made of code points that UTF-8 encodes, decrypting the
  encryption of the key returns the key.
\<close>

theorem private_key_round_trip:
  assumes contract:
      "\<forall>seed plain. is_bytes plain \<longrightarrow>
         is_ascii (encrypt (cipher self) seed plain)
         \<and> decrypt (cipher self) (encrypt (cipher self) seed plain) = Inr plain"
    and key: "list_all scalar_value key"
  shows "round_trip self seed key = Inr key"
proof -
  obtain plain where plain: "encode key = Inr plain" "is_bytes plain"
    "decode plain = Inr key"
    using encode_decode[OF key] by blast
  let ?token = "encrypt (cipher self) seed plain"
  have tok: "is_ascii ?token" and dec: "decrypt (cipher self) ?token = Inr plain"
    using contract plain(2) by blast+
  have enc: "encrypt_private_key self seed key = Inr ?token"
    using plain(1) ascii_codec[OF tok] by (simp add: encrypt_private_key_def)
  have "decrypt_private_key self ?token = Inr key"
    using ascii_codec[OF tok] dec plain(3) by (simp add: decrypt_private_key_def)
  then show ?thesis using enc by (simp add: round_trip_def)
qed

theorem private_key_round_trip_witness:
  "round_trip hex_manager 7 [0x61, 0xE9, 0x20AC, 0x1F600] = Inr [0x61, 0xE9, 0x20AC, 0x1F600]"
proof -
  have c: "\<forall>seed plain. is_bytes plain \<longrightarrow>
         is_ascii (encrypt (cipher hex_manager) seed plain)
         \<and> decrypt (cipher hex_manager) (encrypt (cipher hex_manager) seed plain) = Inr plain"
    using hex_round by (simp add: hex_manager_def)
  have k: "list_all scalar_value [0x61, 0xE9, 0x20AC, 0x1F600]"
    by (simp add: scalar_value_def)
  show ?thesis by (rule private_key_round_trip[OF c k])
qed

end
